theory Spec2Isabelle
  imports Complex_Main "HOL-Library.Sublist" "HOL-Library.AList" "HOL-Library.List_Lexorder"
begin

section \<open>Python values\<close>

subsection \<open>Strings\<close>

text \<open>
  A Python \<open>str\<close> is a sequence of Unicode code points: \<open>len\<close> counts code points and
  \<open>lower\<close>, \<open>strip\<close> and the regular expressions work on them. A string is therefore
  a list of code points (the values of \<open>ord\<close>, as integers); \<open>asc\<close> writes a literal
  whose characters are all ASCII. The guarani sign is the code point 8370.
\<close>

type_synonym str = "int list"

definition asc :: "string \<Rightarrow> str" where
  "asc s = map of_char s"

text \<open>\<open>t in s\<close>: the substring test, scanning the start positions from the left.\<close>

fun py_in :: "str \<Rightarrow> str \<Rightarrow> bool" where
  "py_in t [] = (t = [])"
| "py_in t (c # cs) = (if prefix t (c # cs) then True else py_in t cs)"

text \<open>
  \<open>str.lower()\<close>. The table covers Basic Latin and the Latin-1 Supplement (every code
  point below 256 that Python 3 maps), which is the alphabet of the Spanish listings;
  a code point above 255 is left as it is. No statement below depends on the table
  except through the concrete listing names it evaluates.
\<close>

definition lower_cp :: "int \<Rightarrow> int" where
  "lower_cp c =
     (if 65 \<le> c \<and> c \<le> 90 then c + 32
      else if 192 \<le> c \<and> c \<le> 222 \<and> c \<noteq> 215 then c + 32
      else c)"

definition lower :: "str \<Rightarrow> str" where
  "lower s = map lower_cp s"

text \<open>
  \<open>str.strip()\<close> removes the code points for which \<open>str.isspace()\<close> holds (the same set
  that \<open>\s\<close> matches in a regular expression) from both ends.
\<close>

definition whitespace :: "int list" where
  "whitespace = [9, 10, 11, 12, 13, 28, 29, 30, 31, 32, 133, 160, 5760, 8192, 8193, 8194,
     8195, 8196, 8197, 8198, 8199, 8200, 8201, 8202, 8232, 8233, 8239, 8287, 12288]"

definition is_space :: "int \<Rightarrow> bool" where
  "is_space c = (c \<in> set whitespace)"

definition strip :: "str \<Rightarrow> str" where
  "strip s = rev (dropWhile is_space (rev (dropWhile is_space s)))"

text \<open>
  \<open>s.replace(old, new)\<close> for a non-empty \<open>old\<close>: the occurrences are replaced from the
  left and do not overlap. (Every \<open>old\<close> of the program is a non-empty literal.)
\<close>

fun replace :: "str \<Rightarrow> str \<Rightarrow> str \<Rightarrow> str" where
  "replace old new [] = []"
| "replace old new (c # cs) =
     (if old \<noteq> [] \<and> prefix old (c # cs)
      then new @ replace old new (drop (length old) (c # cs))
      else c # replace old new cs)"

text \<open>\<open>s.split(sep)\<close> for a separator of one code point: never an empty list.\<close>

fun split_on :: "int \<Rightarrow> str \<Rightarrow> str list" where
  "split_on sep [] = [[]]"
| "split_on sep (c # cs) =
     (if c = sep then [] # split_on sep cs
      else (c # hd (split_on sep cs)) # tl (split_on sep cs))"

text \<open>
  The decimal digits: \<open>\d\<close> in a pattern on \<open>str\<close>, and the digits \<open>float\<close> and
  \<open>int\<close> read, are the code points of the Unicode category Nd. They come in runs of ten,
  zero first; \<open>digit_zeros\<close> lists the zero of every run (Unicode 14, as CPython 3.11
  ships it), so that the digit \<open>c\<close> of the run starting at \<open>z\<close> has the value \<open>c - z\<close>.
\<close>

definition digit_zeros :: "int list" where
  "digit_zeros = [48, 1632, 1776, 1984, 2406, 2534, 2662, 2790, 2918, 3046, 3174, 3302, 3430,
     3558, 3664, 3792, 3872, 4160, 4240, 6112, 6160, 6470, 6608, 6784, 6800, 6992, 7088, 7232,
     7248, 42528, 43216, 43264, 43472, 43504, 43600, 44016, 65296, 66720, 68912, 69734, 69872,
     69942, 70096, 70384, 70736, 70864, 71248, 71360, 71472, 71904, 72016, 72784, 73040, 73120,
     92768, 92864, 93008, 120782, 120792, 120802, 120812, 120822, 123200, 123632, 125264,
     130032]"

definition digit_value :: "int \<Rightarrow> int option" where
  "digit_value c =
     (case filter (\<lambda>z. z \<le> c \<and> c < z + 10) digit_zeros of
        [] \<Rightarrow> None
      | z # _ \<Rightarrow> Some (c - z))"

definition is_digit :: "int \<Rightarrow> bool" where
  "is_digit c = (digit_value c \<noteq> None)"

definition digits_value :: "str \<Rightarrow> int" where
  "digits_value ds = foldl (\<lambda>acc c. 10 * acc + the (digit_value c)) 0 ds"

subsection \<open>Exceptions\<close>

datatype py_error = ValueError | OverflowError | ZeroDivisionError | StatisticsError

subsection \<open>Floats\<close>

text \<open>
  A finite Python \<open>float\<close> is an IEEE 754 binary64 number, here the rational it denotes.
  Every float operation of the program (\<open>float(str)\<close>, \<open>/\<close>, \<open>*\<close>, \<open>-\<close>, SQL's
  \<open>AVG\<close>) returns the exact result rounded to the nearest binary64 number, ties to the
  even significand: that rounding is \<open>fl\<close>. A result of magnitude \<open>2 ^ 1024\<close> or more
  is an overflow.

  \<open>bitlen n\<close> is the number of binary digits of \<open>n\<close>, \<open>pow2 s\<close> the power \<open>2 ^ s\<close> for
  an integer \<open>s\<close>, \<open>ilog2 x\<close> the exponent \<open>e\<close> with \<open>2 ^ e \<le> x < 2 ^ (e + 1)\<close> of a
  positive \<open>x\<close>. A binary64 number has 53 significant bits, so its unit in the last
  place is \<open>2 ^ (e - 52)\<close>, and never less than \<open>2 ^ - 1074\<close> (the subnormal numbers).
\<close>

function bitlen :: "int \<Rightarrow> int" where
  "bitlen n = (if n \<le> 0 then 0 else 1 + bitlen (n div 2))"
  by pat_completeness auto
termination
  by (relation "measure nat") auto

declare bitlen.simps [simp del]

definition pow2 :: "int \<Rightarrow> rat" where
  "pow2 s = (if 0 \<le> s then of_int (2 ^ nat s) else 1 / of_int (2 ^ nat (- s)))"

definition ilog2 :: "rat \<Rightarrow> int" where
  "ilog2 x =
     (let (a, b) = quotient_of x;
          d = bitlen a - bitlen b
      in if (if 0 \<le> d then b * 2 ^ nat d \<le> a else b \<le> a * 2 ^ nat (- d)) then d else d - 1)"

definition round_half_even :: "rat \<Rightarrow> int" where
  "round_half_even r =
     (let f = \<lfloor>r\<rfloor>; d = r - of_int f
      in if d < 1 / 2 then f else if 1 / 2 < d then f + 1 else if even f then f else f + 1)"

definition fl :: "rat \<Rightarrow> rat" where
  "fl x =
     (if x = 0 then 0
      else let s = max (ilog2 \<bar>x\<bar> - 52) (- 1074)
           in of_int (round_half_even (x * pow2 (- s))) * pow2 s)"

text \<open>\<open>int(x)\<close> of a float truncates toward zero.\<close>

definition py_int :: "rat \<Rightarrow> int" where
  "py_int x = (if 0 \<le> x then \<lfloor>x\<rfloor> else \<lceil>x\<rceil>)"

text \<open>
  \<open>round(x, 1)\<close>: the decimal with one fractional digit nearest to the exact value of
  \<open>x\<close> (ties to the even digit), read back as a float.
\<close>

definition py_round1 :: "rat \<Rightarrow> rat" where
  "py_round1 x = fl (of_int (round_half_even (x * 10)) / 10)"

text \<open>
  \<open>float(s)\<close> for a string of digits and \<open>.\<close> (the only strings the program passes):
  digits with at most one point and at least one digit, else \<open>ValueError\<close>.
  \<open>float_literal\<close> is the number written, \<open>None\<close> for a malformed string;
  \<open>int(float(s))\<close> rounds it, and \<open>int\<close> raises \<open>OverflowError\<close> on the infinity that
  an overflowing literal is read as.
\<close>

definition float_literal :: "str \<Rightarrow> rat option" where
  "float_literal s =
     (let ip = takeWhile is_digit s; rest = dropWhile is_digit s
      in case rest of
           [] \<Rightarrow> if ip = [] then None else Some (of_int (digits_value ip))
         | c # fp \<Rightarrow>
             if c = 46 \<and> list_all is_digit fp \<and> (ip \<noteq> [] \<or> fp \<noteq> [])
             then Some (of_int (digits_value ip)
                        + of_int (digits_value fp) / of_int (10 ^ length fp))
             else None)"

definition int_of_float_str :: "str \<Rightarrow> py_error + int" where
  "int_of_float_str s =
     (case float_literal s of
        None \<Rightarrow> Inl ValueError
      | Some v \<Rightarrow> if pow2 1024 \<le> fl v then Inl OverflowError else Inr (py_int (fl v)))"

subsection \<open>Dates\<close>

text \<open>
  A \<open>date\<close> is its day number \<open>toordinal()\<close>, from 1 (\<open>date.min\<close>) to 3652059
  (\<open>date.max\<close>). \<open>timedelta(days=n)\<close> raises \<open>OverflowError\<close> when \<open>n\<close> has a magnitude
  above 999999999, and \<open>d - delta\<close> raises it when the resulting day is not a date.
\<close>

definition max_ordinal :: int where
  "max_ordinal = 3652059"

definition timedelta :: "int \<Rightarrow> py_error + int" where
  "timedelta days = (if \<bar>days\<bar> \<le> 999999999 then Inr days else Inl OverflowError)"

definition date_sub :: "int \<Rightarrow> int \<Rightarrow> py_error + int" where
  "date_sub d delta =
     (let ordinal = d - delta
      in if 0 < ordinal \<and> ordinal \<le> max_ordinal then Inr ordinal else Inl OverflowError)"

section \<open>Price Text Normalizer (\<open>BaseScraper._extract_price\<close>)\<close>

text \<open>\<open>re.search(r"[\d.,]+", cleaned)\<close>: the first maximal run of digits, \<open>.\<close> and \<open>,\<close>.\<close>

definition price_char :: "int \<Rightarrow> bool" where
  "price_char c = (is_digit c \<or> c = 46 \<or> c = 44)"

definition search_price_run :: "str \<Rightarrow> str option" where
  "search_price_run s =
     (case dropWhile (\<lambda>c. \<not> price_char c) s of
        [] \<Rightarrow> None
      | c # cs \<Rightarrow> Some (takeWhile price_char (c # cs)))"

text \<open>The \<open>if\<close>/\<open>elif\<close> chain that decides what the separators of \<open>price_str\<close> mean.\<close>

definition separators :: "str \<Rightarrow> str" where
  "separators price_str =
     (if py_in (asc ''.'') price_str \<and> py_in (asc '','') price_str
      then replace (asc '','') (asc ''.'') (replace (asc ''.'') [] price_str)
      else if py_in (asc ''.'') price_str
      then (let parts = split_on 46 price_str
            in if length (last parts) = 3 then replace (asc ''.'') [] price_str else price_str)
      else if py_in (asc '','') price_str
      then replace (asc '','') [] price_str
      else price_str)"

text \<open>
  The first \<open>replace\<close> chain removes \<open>Gs\<close>, the guarani sign and \<open>G$\<close>, the second
  \<open>/kg\<close>, \<open>/un\<close> and \<open>/u\<close>. Only \<open>ValueError\<close> is caught; the result \<open>Inr None\<close> is
  Python's \<open>None\<close>, "no price".
\<close>

definition extract_price :: "str \<Rightarrow> py_error + int option" where
  "extract_price text =
     (if text = [] then Inr None
      else
        let cleaned = replace (asc ''G$'') [] (replace [8370] [] (replace (asc ''Gs'') [] text));
            cleaned = replace (asc ''/u'') []
                        (replace (asc ''/un'') [] (replace (asc ''/kg'') [] cleaned));
            cleaned = strip cleaned
        in case search_price_run cleaned of
             None \<Rightarrow> Inr None
           | Some price_str \<Rightarrow>
               (case int_of_float_str (separators price_str) of
                  Inl ValueError \<Rightarrow> Inr None
                | Inl e \<Rightarrow> Inl e
                | Inr n \<Rightarrow> Inr (Some n)))"

section \<open>Produce Classifier (\<open>BaseScraper._is_fresh_produce\<close>)\<close>

definition exclude_terms :: "str list" where
  "exclude_terms =
     [asc ''extracto'', asc ''pure'', [112, 117, 114, 233], asc ''salsa'', asc ''pelado'',
      asc ''enlatado'', asc ''conserva'', asc ''lata'', asc ''botella'', asc ''tetra'',
      asc ''sachet'', asc ''sobre'', asc ''sardina'', asc ''atun'', [97, 116, 250, 110],
      asc ''ketchup'', asc ''pasta'', asc ''pulpa'']"

definition include_terms :: "str list" where
  "include_terms =
     [asc ''por kg'', asc ''por kilo'', asc ''x kg'', asc ''/kg'', asc ''kg x'', asc ''1 kg'',
      asc ''fresco'', asc ''bandeja'', asc ''granel'', asc ''x 1'']"

text \<open>
  \<open>for term in terms: if term in name_lower: return ...\<close>: the loop over a term list,
  which leaves at the first term found in the name.
\<close>

fun term_found :: "str list \<Rightarrow> str \<Rightarrow> bool" where
  "term_found [] name_lower = False"
| "term_found (t # ts) name_lower = (if py_in t name_lower then True else term_found ts name_lower)"

definition is_fresh_produce :: "str \<Rightarrow> bool" where
  "is_fresh_produce name =
     (let name_lower = lower name in
      if term_found exclude_terms name_lower then False
      else if term_found include_terms name_lower then True
      else if py_in (asc ''kg'') name_lower then True
      else True)"

text \<open>
  The policy of the specification, in its words: an ordered rule list, first match wins.
  A rule is a condition on the lowercased name and the verdict it gives.
\<close>

definition contains_any :: "str list \<Rightarrow> str \<Rightarrow> bool" where
  "contains_any ts s = (\<exists>t \<in> set ts. sublist t s)"

definition classifier_rules :: "((str \<Rightarrow> bool) \<times> bool) list" where
  "classifier_rules =
     [(contains_any exclude_terms, False),
      (contains_any include_terms, True),
      (sublist (asc ''kg''), True)]"

fun first_match :: "((str \<Rightarrow> bool) \<times> bool) list \<Rightarrow> bool \<Rightarrow> str \<Rightarrow> bool" where
  "first_match [] dflt s = dflt"
| "first_match ((cond, verdict) # rules) dflt s =
     (if cond s then verdict else first_match rules dflt s)"

definition classifier_policy :: "str \<Rightarrow> bool" where
  "classifier_policy name = first_match classifier_rules True (lower name)"

text \<open>The one-predicate reading: no processed-food exclusion term occurs in the lowercased name.\<close>

definition no_exclusion_term :: "str \<Rightarrow> bool" where
  "no_exclusion_term name = (\<not> contains_any exclude_terms (lower name))"

section \<open>Price Store (\<open>PriceDatabase\<close>)\<close>

text \<open>
  The table \<open>prices\<close>: its rows in the order of their \<open>id\<close> (\<open>AUTOINCREMENT\<close>: a new
  row gets an \<open>id\<close> above every earlier one). The columns \<open>id\<close> and \<open>created_at\<close> are
  read by no query and are left out. A date is its day number (\<open>date.toordinal()\<close>);
  the table stores its ISO text, which SQL compares in the order of the days.
  \<open>product_name_raw\<close> may be \<open>NULL\<close> (\<open>None\<close>).
\<close>

record price_row =
  col_date :: int
  col_supermarket :: str
  col_product :: str
  col_product_name_raw :: "str option"
  col_price_guaranies :: int
  col_unit :: str

type_synonym price_table = "price_row list"

text \<open>
  \<open>UNIQUE(date, supermarket, product, product_name_raw)\<close>: two rows conflict when the four
  columns are equal, and in SQL a \<open>NULL\<close> equals nothing, itself included.
\<close>

definition unique_conflict :: "price_row \<Rightarrow> price_row \<Rightarrow> bool" where
  "unique_conflict r new =
     (col_date r = col_date new \<and> col_supermarket r = col_supermarket new
      \<and> col_product r = col_product new
      \<and> (case (col_product_name_raw r, col_product_name_raw new) of
             (Some a, Some b) \<Rightarrow> a = b
           | _ \<Rightarrow> False))"

text \<open>
  \<open>INSERT OR REPLACE\<close> deletes the rows in conflict with the new one and then inserts
  it, with a fresh \<open>id\<close>: it goes to the end. The \<open>sqlite3\<close> module raises
  \<open>OverflowError\<close> for an integer outside SQLite's 64 bits, which the handler (for
  \<open>IntegrityError\<close>) does not catch. \<open>today\<close> is \<open>datetime.now().date()\<close>.
\<close>

definition save_price ::
  "int \<Rightarrow> price_table \<Rightarrow> str \<Rightarrow> str \<Rightarrow> int \<Rightarrow> str option \<Rightarrow> str \<Rightarrow> int option
     \<Rightarrow> py_error + price_table" where
  "save_price today db supermarket product price_guaranies product_name_raw unit date =
     (let date = (case date of None \<Rightarrow> today | Some d \<Rightarrow> d);
          new = \<lparr>col_date = date, col_supermarket = supermarket, col_product = product,
                 col_product_name_raw = product_name_raw,
                 col_price_guaranies = price_guaranies, col_unit = unit\<rparr>
      in if price_guaranies < - (2 ^ 63) \<or> 2 ^ 63 \<le> price_guaranies then Inl OverflowError
         else Inr (filter (\<lambda>r. \<not> unique_conflict r new) db @ [new]))"

text \<open>The dictionaries that \<open>get_prices_for_date\<close> returns, one per row.\<close>

record price_entry =
  d_supermarket :: str
  d_product :: str
  d_price :: int
  d_product_name_raw :: "str option"
  d_unit :: str

definition entry_of_row :: "price_row \<Rightarrow> price_entry" where
  "entry_of_row r =
     \<lparr>d_supermarket = col_supermarket r, d_product = col_product r,
      d_price = col_price_guaranies r, d_product_name_raw = col_product_name_raw r,
      d_unit = col_unit r\<rparr>"

text \<open>
  \<open>ORDER BY\<close> is a stable sort of the rows in \<open>id\<close> order (SQL leaves the order of
  rows with equal keys open; the statements below do not depend on it). The query
  filters by product only when \<open>product\<close> is truthy: neither \<open>None\<close> nor empty.
\<close>

definition get_prices_for_date :: "price_table \<Rightarrow> int \<Rightarrow> str option \<Rightarrow> price_entry list" where
  "get_prices_for_date db date product =
     (if product \<noteq> None \<and> product \<noteq> Some []
      then map entry_of_row
             (sort_key col_price_guaranies
                (filter (\<lambda>r. col_date r = date \<and> Some (col_product r) = product) db))
      else map entry_of_row
             (sort_key col_product
                (sort_key col_price_guaranies (filter (\<lambda>r. col_date r = date) db))))"

definition get_today_prices :: "int \<Rightarrow> price_table \<Rightarrow> str option \<Rightarrow> price_entry list" where
  "get_today_prices today db product = get_prices_for_date db today product"

text \<open>
  \<open>ORDER BY date DESC LIMIT 1\<close>: a row of the latest date before today. Of several rows
  of that date SQL may return any; the model takes the one of least \<open>id\<close>.
\<close>

definition get_previous_price :: "int \<Rightarrow> price_table \<Rightarrow> str \<Rightarrow> str \<Rightarrow> int option" where
  "get_previous_price today db supermarket product =
     (case filter (\<lambda>r. col_supermarket r = supermarket \<and> col_product r = product
                        \<and> col_date r < today) db of
        [] \<Rightarrow> None
      | r # rs \<Rightarrow>
          (case filter (\<lambda>q. col_date q = Max (set (map col_date (r # rs)))) (r # rs) of
             [] \<Rightarrow> None
           | q # _ \<Rightarrow> Some (col_price_guaranies q)))"

text \<open>
  \<open>SELECT date, AVG(price_guaranies) ... GROUP BY date ORDER BY date ASC\<close>. \<open>AVG\<close> is
  the sum, as a float, divided by the count.
\<close>

definition sql_avg :: "int list \<Rightarrow> rat" where
  "sql_avg xs = fl (fl (of_int (sum_list xs)) / of_int (int (length xs)))"

definition avg_by_date :: "price_table \<Rightarrow> str \<Rightarrow> int \<Rightarrow> int \<Rightarrow> (int \<times> rat) list" where
  "avg_by_date db product start_date end_date =
     (let rows = filter (\<lambda>r. col_product r = product \<and> start_date \<le> col_date r
                              \<and> col_date r \<le> end_date) db
      in map (\<lambda>d. (d, sql_avg (map col_price_guaranies (filter (\<lambda>r. col_date r = d) rows))))
           (sort (remdups (map col_date rows))))"

datatype trend_label = insufficient_data | up | down | stable

text \<open>
  The dictionary that \<open>get_price_trend\<close> returns (its keys with the prefix \<open>t_\<close>); with
  insufficient data it has no \<open>first_price\<close> and no \<open>last_price\<close>.
\<close>

record trend_summary =
  t_trend :: trend_label
  t_change_percent :: rat
  t_first_price :: "int option"
  t_last_price :: "int option"

text \<open>The percentage change \<open>((last - first) / first) * 100\<close> of two floats.\<close>

definition percent_change :: "rat \<Rightarrow> rat \<Rightarrow> rat" where
  "percent_change first_price last_price =
     fl (fl (fl (last_price - first_price) / first_price) * 100)"

text \<open>
  \<open>get_price_trend\<close>, with \<open>today\<close> for \<open>datetime.now().date()\<close>. The first day of the
  window is computed before the query is made, and the division is not guarded.
\<close>

definition get_price_trend :: "int \<Rightarrow> price_table \<Rightarrow> str \<Rightarrow> int \<Rightarrow> py_error + trend_summary" where
  "get_price_trend today db product days =
     (let end_date = today
      in case timedelta days of
           Inl e \<Rightarrow> Inl e
         | Inr delta \<Rightarrow>
             (case date_sub end_date delta of
                Inl e \<Rightarrow> Inl e
              | Inr start_date \<Rightarrow>
                  let data = avg_by_date db product start_date end_date
                  in if length data < 2
                     then Inr \<lparr>t_trend = insufficient_data, t_change_percent = 0,
                               t_first_price = None, t_last_price = None\<rparr>
                     else
                       let first_price = snd (data ! 0);
                           last_price = snd (last data)
                       in if first_price = 0 then Inl ZeroDivisionError
                          else
                            let change_percent = percent_change first_price last_price;
                                trend = (if 2 < change_percent then up
                                         else if change_percent < - 2 then down
                                         else stable)
                            in Inr \<lparr>t_trend = trend,
                                     t_change_percent = py_round1 change_percent,
                                     t_first_price = Some (py_int first_price),
                                     t_last_price = Some (py_int last_price)\<rparr>))"

section \<open>Report Data Builder (\<open>PriceMonitor._generate_report_data\<close>)\<close>

text \<open>
  A product of the configuration: a dictionary whose keys may be absent (\<open>None\<close>);
  \<open>product.get(key, default)\<close> supplies the default then.
\<close>

record product_config =
  cfg_name :: "str option"
  cfg_search_terms :: "str list option"
  cfg_unit :: "str option"

record alert_event =
  a_product :: str
  a_supermarket :: str
  a_change_percent :: rat
  a_previous_price :: int
  a_current_price :: int

record product_report =
  r_name :: str
  r_median :: int
  r_prices :: "price_entry list"

record report_data =
  rep_date :: int
  rep_products :: "product_report list"
  rep_alerts :: "alert_event list"
  rep_trends :: "(str \<times> trend_summary) list"

text \<open>
  The loop that fills \<open>seen_supermarkets\<close>. A Python dictionary keeps its keys in the
  order of their first insertion, and an assignment to a key it holds keeps the key's
  place: an association list with \<open>AList.update\<close>.
\<close>

fun seen_supermarkets_loop ::
  "price_entry list \<Rightarrow> (str \<times> price_entry) list \<Rightarrow> (str \<times> price_entry) list" where
  "seen_supermarkets_loop [] seen_supermarkets = seen_supermarkets"
| "seen_supermarkets_loop (p # prices) seen_supermarkets =
     (let sm = d_supermarket p
      in if (case map_of seen_supermarkets sm of
               None \<Rightarrow> True
             | Some q \<Rightarrow> d_price p < d_price q)
         then seen_supermarkets_loop prices (AList.update sm p seen_supermarkets)
         else seen_supermarkets_loop prices seen_supermarkets)"

definition deduplicate :: "price_entry list \<Rightarrow> price_entry list" where
  "deduplicate prices = map snd (seen_supermarkets_loop prices [])"

text \<open>
  \<open>statistics.median\<close> of integers: the middle element of the sorted data, or the mean
  of the two middle elements, a float (\<open>/\<close> of two integers is the rounded quotient).
\<close>

definition statistics_median :: "int list \<Rightarrow> py_error + rat" where
  "statistics_median data =
     (let data = sort data; n = length data
      in if n = 0 then Inl StatisticsError
         else if n mod 2 = 1 then Inr (of_int (data ! (n div 2)))
         else let i = n div 2
              in Inr (fl (of_int (data ! (i - 1) + data ! i) / 2)))"

text \<open>\<open>((price - previous) / previous) * 100\<close> of two integers.\<close>

definition alert_change :: "int \<Rightarrow> int \<Rightarrow> rat" where
  "alert_change price previous = fl (fl (of_int (price - previous) / of_int previous) * 100)"

text \<open>
  The loop over the deduplicated prices of one product. \<open>if previous:\<close> holds for a
  previous price that is neither \<open>None\<close> nor zero.
\<close>

fun alerts_loop ::
  "int \<Rightarrow> price_table \<Rightarrow> rat \<Rightarrow> str \<Rightarrow> price_entry list \<Rightarrow> alert_event list
     \<Rightarrow> alert_event list" where
  "alerts_loop today db alert_threshold product_name [] alerts = alerts"
| "alerts_loop today db alert_threshold product_name (price # prices) alerts =
     (case get_previous_price today db (d_supermarket price) product_name of
        None \<Rightarrow> alerts_loop today db alert_threshold product_name prices alerts
      | Some previous \<Rightarrow>
          if previous \<noteq> 0
          then
            let change = alert_change (d_price price) previous
            in if alert_threshold \<le> \<bar>change\<bar>
               then alerts_loop today db alert_threshold product_name prices
                      (alerts @ [\<lparr>a_product = product_name,
                                  a_supermarket = d_supermarket price,
                                  a_change_percent = change,
                                  a_previous_price = previous,
                                  a_current_price = d_price price\<rparr>])
               else alerts_loop today db alert_threshold product_name prices alerts
          else alerts_loop today db alert_threshold product_name prices alerts)"

text \<open>
  The loop over the configured products, with the three accumulators
  \<open>report_products\<close>, \<open>alerts\<close> and \<open>trends\<close>. An exception of the body (one that
  \<open>get_price_trend\<close> raises) leaves the function.
\<close>

fun report_loop ::
  "int \<Rightarrow> price_table \<Rightarrow> rat \<Rightarrow> product_config list
     \<Rightarrow> product_report list \<times> alert_event list \<times> (str \<times> trend_summary) list
     \<Rightarrow> py_error + product_report list \<times> alert_event list \<times> (str \<times> trend_summary) list" where
  "report_loop today db alert_threshold [] acc = Inr acc"
| "report_loop today db alert_threshold (product # products_config)
       (report_products, alerts, trends) =
     (let product_name = (case cfg_name product of None \<Rightarrow> [] | Some n \<Rightarrow> n);
          prices = get_today_prices today db (Some product_name)
      in if prices = []
         then report_loop today db alert_threshold products_config
                (report_products, alerts, trends)
         else
           let prices = deduplicate prices;
               price_values = map d_price prices
           in case statistics_median price_values of
                Inl e \<Rightarrow> Inl e
              | Inr m \<Rightarrow>
                  let median = py_int m;
                      alerts = alerts_loop today db alert_threshold product_name prices alerts
                  in case get_price_trend today db product_name 7 of
                       Inl e \<Rightarrow> Inl e
                     | Inr trend \<Rightarrow>
                         report_loop today db alert_threshold products_config
                           (report_products
                              @ [\<lparr>r_name = product_name, r_median = median,
                                   r_prices = sort_key d_price prices\<rparr>],
                            alerts,
                            AList.update product_name trend trends))"

definition generate_report_data ::
  "int \<Rightarrow> price_table \<Rightarrow> rat \<Rightarrow> product_config list \<Rightarrow> py_error + report_data" where
  "generate_report_data today db alert_threshold products_config =
     (case report_loop today db alert_threshold products_config ([], [], []) of
        Inl e \<Rightarrow> Inl e
      | Inr (report_products, alerts, trends) \<Rightarrow>
          Inr \<lparr>rep_date = today, rep_products = report_products,
                rep_alerts = alerts, rep_trends = trends\<rparr>)"

section \<open>Source Adapter (\<open>BaseScraper.search\<close>)\<close>

text \<open>
  A scraper holds the fields that \<open>__init__\<close> reads from its configuration. A candidate
  listing is the dictionary an extractor returns.
\<close>

record scraper =
  s_name :: str
  s_base_url :: str
  s_search_url :: str
  s_enabled :: bool

record listing =
  l_name :: str
  l_price :: int
  l_unit :: str
  l_url :: str
  l_supermarket :: str

text \<open>
  The exceptions of the \<open>try\<close> block, by the handler that matches them: an instance of
  \<open>requests.RequestException\<close> (a timeout, a refused connection, the \<open>HTTPError\<close> of
  \<open>raise_for_status\<close>), or any other instance of \<open>Exception\<close>. (\<open>KeyboardInterrupt\<close> and
  \<open>SystemExit\<close> are no instances of \<open>Exception\<close>; they come from outside the call.)
\<close>

datatype raised = RequestException | OtherException

text \<open>
  What lies outside the program. \<open>format_url\<close> is \<open>search_url.format(query=query)\<close>;
  \<open>http_get\<close> is \<open>session.get(url, timeout=30)\<close> followed by \<open>raise_for_status()\<close>, giving
  \<open>response.text\<close>; \<open>parse_products\<close> is \<open>BeautifulSoup(text, "lxml")\<close> followed by the
  extractor \<open>_parse_products\<close> of the subclass. Each returns or raises.
\<close>

record web =
  format_url :: "str \<Rightarrow> str \<Rightarrow> raised + str"
  http_get :: "str \<Rightarrow> raised + str"
  parse_products :: "str \<Rightarrow> raised + listing list"

text \<open>
  The body of the \<open>try\<close> block: an exception leaves it at once. The second component is
  the list of the URLs requested so far, the trace of the network accesses.
\<close>

definition search_try :: "scraper \<Rightarrow> web \<Rightarrow> str \<Rightarrow> str list \<Rightarrow> (raised + listing list) \<times> str list" where
  "search_try self w query requested =
     (case format_url w (s_search_url self) query of
        Inl e \<Rightarrow> (Inl e, requested)
      | Inr url \<Rightarrow>
          (case http_get w url of
             Inl e \<Rightarrow> (Inl e, requested @ [url])
           | Inr text \<Rightarrow>
               (case parse_products w text of
                  Inl e \<Rightarrow> (Inl e, requested @ [url])
                | Inr products \<Rightarrow> (Inr products, requested @ [url]))))"

text \<open>
  \<open>search\<close>: the guard on \<open>enabled\<close>, then the \<open>try\<close> block with its two handlers. Its
  result is \<open>Inl\<close> for an exception that leaves \<open>search\<close>.
\<close>

definition search :: "scraper \<Rightarrow> web \<Rightarrow> str \<Rightarrow> str list \<Rightarrow> (raised + listing list) \<times> str list" where
  "search self w query requested =
     (if \<not> s_enabled self then (Inr [], requested)
      else
        case search_try self w query requested of
          (Inl RequestException, requested') \<Rightarrow> (Inr [], requested')
        | (Inl OtherException, requested') \<Rightarrow> (Inr [], requested')
        | (Inr products, requested') \<Rightarrow> (Inr products, requested'))"

section \<open>Generic fallback extractor (\<open>GenericScraper\<close>)\<close>

text \<open>
  A container element, by what the extractor asks of it. \<open>find_text (tag, by_class)\<close> is
  the stripped text of \<open>element.find(tag)\<close>, or with \<open>by_class\<close> of
  \<open>element.find(tag, class_=re.compile(r"name|title", re.I))\<close>, and \<open>None\<close> when \<open>find\<close>
  finds nothing. \<open>link_title\<close> is the \<open>title\<close> of \<open>element.find("a", title=True)\<close>.
  \<open>find_price_text pattern tag\<close> is the stripped text of \<open>element.find(tag, **pattern)\<close>.
  \<open>get_text\<close> is \<open>element.get_text()\<close> and \<open>link_href\<close> the \<open>href\<close> of
  \<open>element.find("a", href=True)\<close>.
\<close>

datatype price_pattern = Class_matches str | Itemprop str

record element =
  find_text :: "str \<times> bool \<Rightarrow> str option"
  link_title :: "str option"
  find_price_text :: "price_pattern \<Rightarrow> str \<Rightarrow> str option"
  get_text :: str
  link_href :: "str option"

definition name_patterns :: "(str \<times> bool) list" where
  "name_patterns =
     [(asc ''h1'', False), (asc ''h2'', False), (asc ''h3'', False), (asc ''h4'', False),
      (asc ''a'', True), (asc ''span'', True), (asc ''p'', True), (asc ''div'', True)]"

definition price_patterns :: "price_pattern list" where
  "price_patterns =
     [Class_matches (asc ''price''), Class_matches (asc ''valor''),
      Class_matches (asc ''costo''), Itemprop (asc ''price'')]"

definition price_tags :: "str list" where
  "price_tags = [asc ''span'', asc ''div'', asc ''p'', asc ''strong'']"

text \<open>
  The loop over \<open>name_patterns\<close>: the text of each pattern found is assigned to \<open>name\<close>,
  and the loop is left when that text is longer than 3.
\<close>

fun name_loop :: "element \<Rightarrow> (str \<times> bool) list \<Rightarrow> str option \<Rightarrow> str option" where
  "name_loop el [] name = name"
| "name_loop el (pat # pats) name =
     (case find_text el pat of
        None \<Rightarrow> name_loop el pats name
      | Some t \<Rightarrow> if 3 < length t then Some t else name_loop el pats (Some t))"

text \<open>\<open>if price:\<close> holds for a price that is neither \<open>None\<close> nor zero.\<close>

definition truthy :: "int option \<Rightarrow> bool" where
  "truthy price = (price \<noteq> None \<and> price \<noteq> Some 0)"

fun tag_loop :: "element \<Rightarrow> price_pattern \<Rightarrow> str list \<Rightarrow> int option \<Rightarrow> py_error + int option" where
  "tag_loop el pattern [] price = Inr price"
| "tag_loop el pattern (tag # tags) price =
     (case find_price_text el pattern tag of
        None \<Rightarrow> tag_loop el pattern tags price
      | Some price_text \<Rightarrow>
          (case extract_price price_text of
             Inl e \<Rightarrow> Inl e
           | Inr p \<Rightarrow> if truthy p then Inr p else tag_loop el pattern tags p))"

fun pattern_loop :: "element \<Rightarrow> price_pattern list \<Rightarrow> int option \<Rightarrow> py_error + int option" where
  "pattern_loop el [] price = Inr price"
| "pattern_loop el (pattern # patterns) price =
     (case tag_loop el pattern price_tags price of
        Inl e \<Rightarrow> Inl e
      | Inr p \<Rightarrow> if truthy p then Inr p else pattern_loop el patterns p)"

text \<open>
  \<open>re.search(r"[Gs\<dots>G\$]\s*[\d.,]+", text)\<close>, the class being \<open>G\<close>, \<open>s\<close>, the guarani sign
  and \<open>$\<close>: the leftmost such code point that is followed, after any whitespace, by a
  run of digits, \<open>.\<close> and \<open>,\<close>; the match is that code point, the whitespace and the run.
\<close>

fun search_currency_run :: "str \<Rightarrow> str option" where
  "search_currency_run [] = None"
| "search_currency_run (c # cs) =
     (if c \<in> {71, 115, 8370, 36} \<and> takeWhile price_char (dropWhile is_space cs) \<noteq> []
      then Some (c # takeWhile is_space cs @ takeWhile price_char (dropWhile is_space cs))
      else search_currency_run cs)"

text \<open>\<open>s.rstrip("/")\<close>, \<open>s.lstrip("/")\<close> and \<open>s.startswith(prefix)\<close>.\<close>

definition rstrip_slash :: "str \<Rightarrow> str" where
  "rstrip_slash s = rev (dropWhile (\<lambda>c. c = 47) (rev s))"

definition lstrip_slash :: "str \<Rightarrow> str" where
  "lstrip_slash s = dropWhile (\<lambda>c. c = 47) s"

text \<open>
  \<open>_extract_product_data\<close>: \<open>Inr None\<close> is Python's \<open>None\<close>, \<open>Inl\<close> an exception (of
  \<open>_extract_price\<close>), which \<open>_parse_products\<close> catches.
\<close>

definition extract_product_data :: "scraper \<Rightarrow> element \<Rightarrow> py_error + listing option" where
  "extract_product_data self el =
     (let name = name_loop el name_patterns None;
          name = (if name = None \<or> name = Some []
                  then (case link_title el of None \<Rightarrow> name | Some t \<Rightarrow> Some t)
                  else name)
      in case name of
           None \<Rightarrow> Inr None
         | Some name \<Rightarrow>
             if name = [] then Inr None
             else
               (case pattern_loop el price_patterns None of
                  Inl e \<Rightarrow> Inl e
                | Inr price \<Rightarrow>
                    (case (if \<not> truthy price
                           then (case search_currency_run (get_text el) of
                                   None \<Rightarrow> Inr price
                                 | Some m \<Rightarrow> extract_price m)
                           else Inr price) of
                       Inl e \<Rightarrow> Inl e
                     | Inr price \<Rightarrow>
                         if \<not> truthy price then Inr None
                         else
                           let url = (case link_href el of
                                        None \<Rightarrow> []
                                      | Some url \<Rightarrow>
                                          if url \<noteq> [] \<and> \<not> prefix (asc ''http'') url
                                          then rstrip_slash (s_base_url self) @ asc ''/''
                                                 @ lstrip_slash url
                                          else url)
                           in Inr (Some \<lparr>l_name = name, l_price = the price,
                                          l_unit = asc ''kg'', l_url = url,
                                          l_supermarket = s_name self\<rparr>))))"

text \<open>
  The loop of \<open>_parse_products\<close> over the container elements it has located: an element
  whose extraction raises is skipped.
\<close>

fun parse_elements :: "scraper \<Rightarrow> element list \<Rightarrow> listing list" where
  "parse_elements self [] = []"
| "parse_elements self (el # els) =
     (case extract_product_data self el of
        Inr (Some product) \<Rightarrow>
          if is_fresh_produce (l_name product)
          then product # parse_elements self els
          else parse_elements self els
      | _ \<Rightarrow> parse_elements self els)"

section \<open>Product Matcher and Collection Pipeline (\<open>PriceMonitor\<close>)\<close>

text \<open>\<open>for term in search_terms: if term.lower() in raw_lower: return True\<close>.\<close>

fun term_matches :: "str list \<Rightarrow> str \<Rightarrow> bool" where
  "term_matches [] raw_lower = False"
| "term_matches (t # ts) raw_lower =
     (if py_in (lower t) raw_lower then True else term_matches ts raw_lower)"

definition matches_product :: "str \<Rightarrow> product_config \<Rightarrow> bool" where
  "matches_product raw_name product =
     (let raw_lower = lower raw_name;
          search_terms = (case cfg_search_terms product of None \<Rightarrow> [] | Some ts \<Rightarrow> ts)
      in term_matches search_terms raw_lower)"

record supermarket_config =
  sm_name :: "str option"
  sm_enabled :: "bool option"

text \<open>The dictionaries that \<open>_scrape_all_prices\<close> collects.\<close>

record scraped_price =
  sp_supermarket :: str
  sp_product :: str
  sp_product_name_raw :: str
  sp_price :: int
  sp_unit :: str

text \<open>
  The run's state: the prices collected and the searches made so far, each search a
  pair of the source's name and the term. \<open>search_of\<close> stands for \<open>scraper.search\<close> of the
  source's scraper, which returns a list and never raises; what it returns may depend
  on the number of searches made before.
\<close>

type_synonym run_state = "scraped_price list \<times> (str \<times> str) list"

fun results_loop ::
  "str \<Rightarrow> product_config \<Rightarrow> str \<Rightarrow> listing list \<Rightarrow> scraped_price list \<Rightarrow> scraped_price list" where
  "results_loop name product product_name [] all_prices = all_prices"
| "results_loop name product product_name (result # results) all_prices =
     results_loop name product product_name results
       (if matches_product (l_name result) product
        then all_prices
               @ [\<lparr>sp_supermarket = name, sp_product = product_name,
                    sp_product_name_raw = l_name result, sp_price = l_price result,
                    sp_unit = (case cfg_unit product of None \<Rightarrow> asc ''kg'' | Some u \<Rightarrow> u)\<rparr>]
        else all_prices)"

fun search_terms_loop ::
  "(supermarket_config \<Rightarrow> str \<Rightarrow> nat \<Rightarrow> listing list) \<Rightarrow> supermarket_config \<Rightarrow> str
     \<Rightarrow> product_config \<Rightarrow> str \<Rightarrow> str list \<Rightarrow> run_state \<Rightarrow> run_state" where
  "search_terms_loop search_of sm name product product_name [] st = st"
| "search_terms_loop search_of sm name product product_name (term # terms) (all_prices, searches) =
     (let results = search_of sm term (length searches)
      in search_terms_loop search_of sm name product product_name terms
           (results_loop name product product_name results all_prices,
            searches @ [(name, term)]))"

fun products_loop ::
  "(supermarket_config \<Rightarrow> str \<Rightarrow> nat \<Rightarrow> listing list) \<Rightarrow> supermarket_config \<Rightarrow> str
     \<Rightarrow> product_config list \<Rightarrow> run_state \<Rightarrow> run_state" where
  "products_loop search_of sm name [] st = st"
| "products_loop search_of sm name (product # products) st =
     (let product_name = (case cfg_name product of None \<Rightarrow> [] | Some n \<Rightarrow> n);
          search_terms = (case cfg_search_terms product of
                            None \<Rightarrow> [lower product_name]
                          | Some ts \<Rightarrow> ts)
      in products_loop search_of sm name products
           (search_terms_loop search_of sm name product product_name search_terms st))"

fun supermarkets_loop ::
  "(supermarket_config \<Rightarrow> str \<Rightarrow> nat \<Rightarrow> listing list) \<Rightarrow> product_config list
     \<Rightarrow> supermarket_config list \<Rightarrow> run_state \<Rightarrow> run_state" where
  "supermarkets_loop search_of products [] st = st"
| "supermarkets_loop search_of products (sm # supermarkets) st =
     (if sm_enabled sm = Some False
      then supermarkets_loop search_of products supermarkets st
      else
        let name = (case sm_name sm of None \<Rightarrow> [] | Some n \<Rightarrow> n)
        in supermarkets_loop search_of products supermarkets
             (products_loop search_of sm name products st))"

definition scrape_all_prices ::
  "(supermarket_config \<Rightarrow> str \<Rightarrow> nat \<Rightarrow> listing list) \<Rightarrow> supermarket_config list
     \<Rightarrow> product_config list \<Rightarrow> run_state" where
  "scrape_all_prices search_of supermarkets products =
     supermarkets_loop search_of products supermarkets ([], [])"

section \<open>The vocabulary of the statements\<close>

subsection \<open>The trailing window, as the specification words it\<close>

text \<open>
  The facts of a product in the window \<open>[today - days, today]\<close>, the distinct dates
  among them, and the average price of a date.
\<close>

definition in_window :: "int \<Rightarrow> int \<Rightarrow> str \<Rightarrow> price_row \<Rightarrow> bool" where
  "in_window today days product r =
     (col_product r = product \<and> today - days \<le> col_date r \<and> col_date r \<le> today)"

definition window_dates :: "int \<Rightarrow> price_table \<Rightarrow> str \<Rightarrow> int \<Rightarrow> int set" where
  "window_dates today db product days = set (map col_date (filter (in_window today days product) db))"

definition day_average :: "price_table \<Rightarrow> str \<Rightarrow> int \<Rightarrow> rat" where
  "day_average db product d =
     sql_avg (map col_price_guaranies (filter (\<lambda>r. col_product r = product \<and> col_date r = d) db))"

text \<open>
  An example history: two facts six days ago, averaging 20000, and one today at 21000.
\<close>

definition trend_example_db :: price_table where
  "trend_example_db =
     [\<lparr>col_date = 739000 - 6, col_supermarket = asc ''Stock'', col_product = asc ''Tomate Lisa'',
       col_product_name_raw = Some (asc ''Tomate Lisa''), col_price_guaranies = 19000,
       col_unit = asc ''kg''\<rparr>,
      \<lparr>col_date = 739000 - 6, col_supermarket = asc ''Superseis'', col_product = asc ''Tomate Lisa'',
       col_product_name_raw = Some (asc ''Tomate Lisa''), col_price_guaranies = 21000,
       col_unit = asc ''kg''\<rparr>,
      \<lparr>col_date = 739000, col_supermarket = asc ''Stock'', col_product = asc ''Tomate Lisa'',
       col_product_name_raw = Some (asc ''Tomate Lisa''), col_price_guaranies = 21000,
       col_unit = asc ''kg''\<rparr>]"

text \<open>
  A history whose earliest day has the one price 0: a fact saved at 0 six days ago and
  one at 21000 today.
\<close>

definition zero_price_db :: price_table where
  "zero_price_db =
     [\<lparr>col_date = 739000 - 6, col_supermarket = asc ''Stock'', col_product = asc ''Tomate Lisa'',
       col_product_name_raw = Some (asc ''Tomate Lisa''), col_price_guaranies = 0,
       col_unit = asc ''kg''\<rparr>,
      \<lparr>col_date = 739000, col_supermarket = asc ''Stock'', col_product = asc ''Tomate Lisa'',
       col_product_name_raw = Some (asc ''Tomate Lisa''), col_price_guaranies = 21000,
       col_unit = asc ''kg''\<rparr>]"

subsection \<open>An example fact\<close>

text \<open>A stored fact of one day, source, product and raw listing name, at a given price.\<close>

definition stored_fact :: "int \<Rightarrow> price_row" where
  "stored_fact price =
     \<lparr>col_date = 739000, col_supermarket = asc ''Stock'', col_product = asc ''Tomate Lisa'',
      col_product_name_raw = Some (asc ''Tomate Lisa x kg''), col_price_guaranies = price,
      col_unit = asc ''kg''\<rparr>"

subsection \<open>The report, as the specification words it\<close>



text \<open>
  The name of a configured product (\<open>product.get("name", "")\<close>), the facts fetched for
  it today, the alerts of one deduplicated price and of one product, and what the
  report says of a product: its name, its deduplicated prices in ascending order and
  the integer median of the deduplicated prices.
\<close>

definition product_name_of :: "product_config \<Rightarrow> str" where
  "product_name_of pc = (case cfg_name pc of None \<Rightarrow> [] | Some n \<Rightarrow> n)"

definition todays_facts :: "int \<Rightarrow> price_table \<Rightarrow> product_config \<Rightarrow> price_entry list" where
  "todays_facts today db pc = get_today_prices today db (Some (product_name_of pc))"

definition alert_for ::
  "int \<Rightarrow> price_table \<Rightarrow> rat \<Rightarrow> str \<Rightarrow> price_entry \<Rightarrow> alert_event list" where
  "alert_for today db alert_threshold product_name e =
     (case get_previous_price today db (d_supermarket e) product_name of
        None \<Rightarrow> []
      | Some previous \<Rightarrow>
          if previous \<noteq> 0 \<and> alert_threshold \<le> \<bar>alert_change (d_price e) previous\<bar>
          then [\<lparr>a_product = product_name, a_supermarket = d_supermarket e,
                 a_change_percent = alert_change (d_price e) previous,
                 a_previous_price = previous, a_current_price = d_price e\<rparr>]
          else [])"

definition product_alerts ::
  "int \<Rightarrow> price_table \<Rightarrow> rat \<Rightarrow> product_config \<Rightarrow> alert_event list" where
  "product_alerts today db alert_threshold pc =
     concat (map (alert_for today db alert_threshold (product_name_of pc))
               (deduplicate (todays_facts today db pc)))"

definition reported_entry :: "int \<Rightarrow> price_table \<Rightarrow> product_config \<Rightarrow> product_report \<Rightarrow> bool" where
  "reported_entry today db pc entry =
     (r_name entry = product_name_of pc
      \<and> r_prices entry = sort_key d_price (deduplicate (todays_facts today db pc))
      \<and> (\<exists>m. statistics_median (map d_price (deduplicate (todays_facts today db pc))) = Inr m
              \<and> r_median entry = py_int m))"

text \<open>
  Example data: one configured product; a day on which one source lists it twice (16500
  and 16800) and another once; and a source whose price fell from 20250 to 16500.
\<close>

definition tomate_row :: "int \<Rightarrow> string \<Rightarrow> string \<Rightarrow> int \<Rightarrow> price_row" where
  "tomate_row date supermarket raw price =
     \<lparr>col_date = date, col_supermarket = asc supermarket, col_product = asc ''Tomate Lisa'',
      col_product_name_raw = Some (asc raw), col_price_guaranies = price, col_unit = asc ''kg''\<rparr>"

definition tomate_config :: "product_config list" where
  "tomate_config =
     [\<lparr>cfg_name = Some (asc ''Tomate Lisa''), cfg_search_terms = Some [asc ''tomate''],
       cfg_unit = Some (asc ''kg'')\<rparr>]"


definition alert_example_db :: price_table where
  "alert_example_db =
     [tomate_row 738999 ''Biggie'' ''Tomate Lisa'' 20250,
      tomate_row 739000 ''Biggie'' ''Tomate Lisa'' 16500]"


definition alert_example_report :: "alert_event list \<Rightarrow> report_data" where
  "alert_example_report alerts =
     \<lparr>rep_date = 739000,
      rep_products =
        [\<lparr>r_name = asc ''Tomate Lisa'', r_median = 16500,
          r_prices = [entry_of_row (tomate_row 739000 ''Biggie'' ''Tomate Lisa'' 16500)]\<rparr>],
      rep_alerts = alerts,
      rep_trends = [(asc ''Tomate Lisa'',
                     \<lparr>t_trend = down, t_change_percent = - (37 / 2),
                      t_first_price = Some 20250, t_last_price = Some 16500\<rparr>)]\<rparr>"

definition biggie_alert :: alert_event where
  "biggie_alert =
     \<lparr>a_product = asc ''Tomate Lisa'', a_supermarket = asc ''Biggie'',
      a_change_percent = - (1303124892178963 / 70368744177664),
      a_previous_price = 20250, a_current_price = 16500\<rparr>"

text \<open>An example scraper, enabled or not, and a listing.\<close>

definition example_scraper :: "bool \<Rightarrow> scraper" where
  "example_scraper enabled =
     \<lparr>s_name = asc ''Biggie'', s_base_url = asc ''https://biggie.example'',
      s_search_url = asc ''https://biggie.example/search?q={query}'', s_enabled = enabled\<rparr>"

definition example_listing :: listing where
  "example_listing =
     \<lparr>l_name = asc ''Tomate Lisa'', l_price = 16500, l_unit = asc ''kg'', l_url = [],
      l_supermarket = asc ''Biggie''\<rparr>"

text \<open>
  Three worlds: in world 0 the request fails; in world 1 the page does not parse; in
  world 2 all is well.
\<close>

definition example_web :: "nat \<Rightarrow> web" where
  "example_web n =
     \<lparr>format_url = (\<lambda>template query. Inr (asc ''https://biggie.example/search?q='' @ query)),
      http_get = (\<lambda>url. if n = 0 then Inl RequestException else Inr (asc ''<html>'')),
      parse_products = (\<lambda>text. if n = 1 then Inl OtherException else Inr [example_listing])\<rparr>"

text \<open>
  A container whose only name element is a heading \<open>h2\<close> with the text \<open>ab\<close>, and whose
  price element reads \<open>Gs 5.000\<close>.
\<close>

definition short_name_element :: element where
  "short_name_element =
     \<lparr>find_text = (\<lambda>pat. if pat = (asc ''h2'', False) then Some (asc ''ab'') else None),
      link_title = None,
      find_price_text = (\<lambda>pattern tag. if pattern = Class_matches (asc ''price'') \<and> tag = asc ''span''
                                        then Some (asc ''Gs 5.000'') else None),
      get_text = asc ''ab Gs 5.000'',
      link_href = None\<rparr>"

text \<open>
  The name of a source, the terms the pipeline searches for a product
  (\<open>product.get("search_terms", [product_name.lower()])\<close>), the searches of a whole run,
  and the origin of a collected price: a configured product whose matcher accepted the
  listing's name.
\<close>

definition supermarket_name_of :: "supermarket_config \<Rightarrow> str" where
  "supermarket_name_of sm = (case sm_name sm of None \<Rightarrow> [] | Some n \<Rightarrow> n)"

definition terms_searched :: "product_config \<Rightarrow> str list" where
  "terms_searched product =
     (case cfg_search_terms product of
        None \<Rightarrow> [lower (product_name_of product)]
      | Some ts \<Rightarrow> ts)"

definition searches_of ::
  "supermarket_config list \<Rightarrow> product_config list \<Rightarrow> (str \<times> str) list" where
  "searches_of supermarkets products =
     concat (map (\<lambda>sm. concat (map (\<lambda>p. map (Pair (supermarket_name_of sm)) (terms_searched p))
                                 products))
               (filter (\<lambda>sm. sm_enabled sm \<noteq> Some False) supermarkets))"

definition from_product :: "product_config list \<Rightarrow> scraped_price \<Rightarrow> bool" where
  "from_product products f =
     (\<exists>p \<in> set products. sp_product f = product_name_of p
                          \<and> matches_product (sp_product_name_raw f) p)"

text \<open>A product without search terms (no entry, or an empty list) and a source.\<close>

definition termless_product :: "str list option \<Rightarrow> product_config" where
  "termless_product terms =
     \<lparr>cfg_name = Some (asc ''Tomate Lisa''), cfg_search_terms = terms, cfg_unit = None\<rparr>"

definition stock_config :: supermarket_config where
  "stock_config = \<lparr>sm_name = Some (asc ''Stock''), sm_enabled = None\<rparr>"

subsection \<open>The separator precedence, as the specification words it\<close>

text \<open>
  The run that \<open>_extract_price\<close> takes from its argument: the first match of
  \<open>[\d.,]+\<close> once the currency markers and unit suffixes are removed and the ends
  stripped.
\<close>

definition price_run :: "str \<Rightarrow> str option" where
  "price_run text =
     (if text = [] then None
      else search_price_run
             (strip (replace (asc ''/u'') []
                       (replace (asc ''/un'') []
                          (replace (asc ''/kg'') []
                             (replace (asc ''G$'') []
                                (replace [8370] [] (replace (asc ''Gs'') [] text))))))))"

text \<open>
  The specification's precedence on that run. Both separators: remove every \<open>.\<close>, then
  drop everything from the \<open>,\<close> onward. Only \<open>.\<close>: remove the dots when the segment after
  the last one has exactly three digits, otherwise leave the run as it is. Only \<open>,\<close>:
  remove the commas.
\<close>

definition spec_separators :: "str \<Rightarrow> str" where
  "spec_separators run =
     (if 46 \<in> set run \<and> 44 \<in> set run
      then takeWhile (\<lambda>c. c \<noteq> 44) (filter (\<lambda>c. c \<noteq> 46) run)
      else if 46 \<in> set run
      then (let segment = rev (takeWhile (\<lambda>c. c \<noteq> 46) (rev run))
            in if length segment = 3 \<and> list_all is_digit segment
               then filter (\<lambda>c. c \<noteq> 46) run else run)
      else if 44 \<in> set run
      then filter (\<lambda>c. c \<noteq> 44) run
      else run)"

text \<open>
  The normalizer with the specification's precedence in the place of the code's
  \<open>if\<close>/\<open>elif\<close> chain; the run is converted as the code converts it, by
  \<open>int(float(...))\<close> with \<open>ValueError\<close> giving no price.
\<close>

definition spec_normalize :: "str \<Rightarrow> py_error + int option" where
  "spec_normalize text =
     (case price_run text of
        None \<Rightarrow> Inr None
      | Some run \<Rightarrow>
          (case int_of_float_str (spec_separators run) of
             Inl ValueError \<Rightarrow> Inr None
           | Inl e \<Rightarrow> Inl e
           | Inr n \<Rightarrow> Inr (Some n)))"

section \<open>Properties\<close>

subsection \<open>Strings\<close>

lemma py_in_sublist: "py_in t s = sublist t s"
  by (induction s) (auto simp: sublist_Cons_right)

lemma term_found_contains_any: "term_found ts s = contains_any ts s"
  by (induction ts) (auto simp: contains_any_def py_in_sublist)

subsection \<open>Floats\<close>

text \<open>
  The facts of binary64 rounding that the normalizer needs: \<open>pow2\<close> is the power of two,
  \<open>ilog2\<close> is not above the logarithm, and a decimal of at most 15 significant digits
  keeps its integer part when rounded.
\<close>

lemma pow2_powi: "pow2 s = 2 powi s"
  by (auto simp: pow2_def power_int_def field_simps)

lemma pow2_pos: "0 < pow2 s"
  by (simp add: pow2_powi)

lemma pow2_add: "pow2 (s + t) = pow2 s * pow2 t"
  by (simp add: pow2_powi power_int_add)

lemma pow2_neg_mult: "pow2 (- s) * pow2 s = 1"
  using pow2_add [of "- s" s] by (simp add: pow2_powi)

lemma pow2_mono: "s \<le> t \<Longrightarrow> pow2 s \<le> pow2 t"
  by (simp add: pow2_powi power_int_increasing)

lemma pow2_nonneg_int: "0 \<le> s \<Longrightarrow> pow2 s = of_int (2 ^ nat s)"
  by (simp add: pow2_def)

lemma bitlen_bounds:
  "0 < n \<Longrightarrow> 1 \<le> bitlen n \<and> 2 ^ nat (bitlen n - 1) \<le> n \<and> n < 2 ^ nat (bitlen n)"
proof (induction n rule: bitlen.induct)
  case (1 n)
  show ?case
  proof (cases "n = 1")
    case True
    have "bitlen 0 = 0" by (subst bitlen.simps) simp
    then have "bitlen 1 = 1" by (subst bitlen.simps) simp
    with True show ?thesis by simp
  next
    case False
    with "1.prems" have half: "0 < n div 2" by simp
    from "1.prems" have nle: "\<not> n \<le> 0" by simp
    from "1.IH" [OF nle half] have ih: "1 \<le> bitlen (n div 2)"
      "2 ^ nat (bitlen (n div 2) - 1) \<le> n div 2" "n div 2 < 2 ^ nat (bitlen (n div 2))"
      by simp_all
    have bl: "bitlen n = 1 + bitlen (n div 2)" using nle by (subst bitlen.simps) simp
    have n1: "nat (bitlen n - 1) = Suc (nat (bitlen (n div 2) - 1))" using bl ih(1) by simp
    have n2: "nat (bitlen n) = Suc (nat (bitlen (n div 2)))" using bl ih(1) by simp
    from ih(2) have "2 * 2 ^ nat (bitlen (n div 2) - 1) \<le> n" by linarith
    moreover from ih(3) have "n < 2 * 2 ^ nat (bitlen (n div 2))" by linarith
    ultimately show ?thesis using bl ih(1) n1 n2 by simp
  qed
qed

lemma ilog2_le:
  assumes "0 < x"
  shows "pow2 (ilog2 x) \<le> x"
proof -
  obtain a b where q: "quotient_of x = (a, b)" by (cases "quotient_of x")
  then have b: "0 < b" and x: "x = of_int a / of_int b"
    using quotient_of_denom_pos quotient_of_div by blast+
  with assms have a: "0 < a" by (simp add: zero_less_divide_iff)
  let ?d = "bitlen a - bitlen b"
  let ?c = "if 0 \<le> ?d then b * 2 ^ nat ?d \<le> a else b \<le> a * 2 ^ nat (- ?d)"
  note ba = bitlen_bounds [OF a] and bb = bitlen_bounds [OF b]
  have il: "ilog2 x = (if ?c then ?d else ?d - 1)"
    by (simp add: ilog2_def q Let_def)
  have low: "pow2 (?d - 1) \<le> x"
  proof -
    have "b * 2 ^ nat (bitlen a - 1) \<le> 2 ^ nat (bitlen b) * 2 ^ nat (bitlen a - 1)"
      using bb by (intro mult_right_mono) simp_all
    also have "\<dots> \<le> 2 ^ nat (bitlen b) * a"
      using ba by (intro mult_left_mono) simp_all
    finally have i: "b * 2 ^ nat (bitlen a - 1) \<le> 2 ^ nat (bitlen b) * a" .
    have "?d - 1 = (bitlen a - 1) + (- bitlen b)" by simp
    then have "pow2 (?d - 1) = pow2 (bitlen a - 1) * pow2 (- bitlen b)"
      by (simp only: pow2_add)
    also have "\<dots> = of_int (2 ^ nat (bitlen a - 1)) / of_int (2 ^ nat (bitlen b))"
      using ba bb by (simp add: pow2_def)
    also have "\<dots> \<le> of_int a / of_int b"
    proof -
      have "(of_int (b * 2 ^ nat (bitlen a - 1)) :: rat) \<le> of_int (2 ^ nat (bitlen b) * a)"
        using i by (simp only: of_int_le_iff)
      then show ?thesis using b by (simp add: field_simps)
    qed
    finally show ?thesis by (simp add: x)
  qed
  show ?thesis
  proof (cases ?c)
    case True
    have "pow2 ?d \<le> of_int a / of_int b"
    proof (cases "0 \<le> ?d")
      case nonneg: True
      with True have "b * 2 ^ nat ?d \<le> a" by simp
      then have "(of_int (b * 2 ^ nat ?d) :: rat) \<le> of_int a" by (simp only: of_int_le_iff)
      then have "of_int (2 ^ nat ?d) \<le> (of_int a :: rat) / of_int b"
        using b by (simp add: field_simps)
      with nonneg show ?thesis by (simp add: pow2_def)
    next
      case neg: False
      with True have "b \<le> a * 2 ^ nat (- ?d)" by simp
      then have "(of_int b :: rat) \<le> of_int (a * 2 ^ nat (- ?d))" by (simp only: of_int_le_iff)
      then have "1 / of_int (2 ^ nat (- ?d)) \<le> (of_int a :: rat) / of_int b"
        using b by (simp add: field_simps)
      with neg show ?thesis by (simp add: pow2_def)
    qed
    then have "pow2 ?d \<le> x" by (simp only: x)
    moreover have "ilog2 x = ?d" by (simp only: il if_P [OF True])
    ultimately show ?thesis by (simp only:)
  next
    case False
    have "ilog2 x = ?d - 1" by (simp only: il if_not_P [OF False])
    with low show ?thesis by (simp only:)
  qed
qed

lemma round_half_even_bounds:
  "of_int (round_half_even r) \<le> r + 1 / 2 \<and> \<lfloor>r\<rfloor> \<le> round_half_even r"
proof -
  have f: "of_int \<lfloor>r\<rfloor> \<le> r" by linarith
  show ?thesis
    unfolding round_half_even_def Let_def using f
    by (auto simp: not_less) linarith+
qed

lemma ten15_lt_pow2_53: "(10::rat) ^ 15 < pow2 53"
  by (simp add: pow2_def)

lemma ten15_pow2_52: "10 ^ 15 * pow2 (- 52) / 2 \<le> 1"
  by (simp add: pow2_def)

lemma pow2_1074: "pow2 (- 1074) / 2 < 1 / 10 ^ 15"
  by (simp add: pow2_def)

lemma ten15_lt_pow2_1024: "(10::rat) ^ 15 < pow2 1024"
  by (simp add: pow2_def)

lemma fl_floor_decimal:
  assumes n: "0 \<le> n" "n < 10 ^ 15" and k: "k \<le> 15"
  shows "\<lfloor>fl (of_int n / 10 ^ k)\<rfloor> = n div 10 ^ k \<and> 0 \<le> fl (of_int n / 10 ^ k)"
proof (cases "n = 0")
  case True
  then show ?thesis by (simp add: fl_def)
next
  case False
  define x :: rat where "x = of_int n / 10 ^ k"
  define A where "A = n div 10 ^ k"
  define r where "r = n mod 10 ^ k"
  define t :: rat where "t = 10 ^ k"
  have tpos: "0 < t" by (simp add: t_def)
  have t1: "1 \<le> t" by (simp add: t_def)
  have tint: "t = of_int (10 ^ k)" by (simp add: t_def)
  from False n have npos: "0 < n" by simp
  then have xpos: "0 < x" using tpos by (simp add: x_def t_def)
  have nAr: "n = A * 10 ^ k + r" by (simp only: A_def r_def div_mult_mod_eq)
  have r: "0 \<le> r" "r \<le> 10 ^ k - 1" by (simp_all add: r_def)
  have A0: "0 \<le> A" using n by (simp add: A_def pos_imp_zdiv_nonneg_iff)
  have "of_int n = of_int A * t + (of_int r :: rat)"
    by (subst nAr) (simp add: tint)
  then have "x = (of_int A * t + of_int r) / t" by (simp add: x_def t_def)
  also have "\<dots> = of_int A + of_int r / t" using tpos by (simp add: add_divide_distrib)
  finally have xA: "x = of_int A + of_int r / t" .
  have r0: "0 \<le> (of_int r :: rat) / t" using r(1) tpos by simp
  have xlow: "of_int A \<le> x" using r0 by (simp add: xA)
  have xup: "x \<le> of_int A + 1 - 1 / t"
  proof -
    have "(of_int r :: rat) \<le> of_int (10 ^ k - 1)" using r(2) by (simp only: of_int_le_iff)
    then have "(of_int r :: rat) \<le> t - 1" by (simp add: tint)
    then have "(of_int r :: rat) / t \<le> (t - 1) / t" using tpos by (simp add: divide_right_mono)
    also have "\<dots> = 1 - 1 / t" using tpos by (simp add: diff_divide_distrib)
    finally show ?thesis by (simp add: xA)
  qed
  have nlt: "(of_int n :: rat) < 10 ^ 15"
  proof -
    have "(of_int n :: rat) < of_int (10 ^ 15)" using n(2) by (simp only: of_int_less_iff)
    then show ?thesis by simp
  qed
  have xlt: "x < 10 ^ 15 / t"
    unfolding x_def t_def [symmetric] using nlt tpos by (rule divide_strict_right_mono)
  have xlt15: "x < 10 ^ 15"
  proof -
    have "(10::rat) ^ 15 / t \<le> 10 ^ 15 / 1" using t1 by (intro divide_left_mono) simp_all
    with xlt show ?thesis by simp
  qed
  define e where "e = ilog2 x"
  define s where "s = max (e - 52) (- 1074)"
  define m where "m = round_half_even (x * pow2 (- s))"
  have ax: "\<bar>x\<bar> = x" using xpos by simp
  have flx: "fl x = of_int m * pow2 s"
    using xpos unfolding fl_def Let_def ax e_def [symmetric] s_def [symmetric] m_def [symmetric]
    by simp
  have ele: "pow2 e \<le> x" unfolding e_def by (rule ilog2_le [OF xpos])
  have e52: "e \<le> 52"
  proof (rule ccontr)
    assume "\<not> e \<le> 52"
    then have "53 \<le> e" by simp
    then have "pow2 53 \<le> pow2 e" by (rule pow2_mono)
    from this ele have "pow2 53 \<le> x" by (rule order_trans)
    with xlt15 ten15_lt_pow2_53 show False by linarith
  qed
  then have s0: "s \<le> 0" by (simp add: s_def)
  then have P: "pow2 (- s) = of_int (2 ^ nat (- s))" by (simp add: pow2_def)
  have ps: "pow2 (- s) * pow2 s = 1" by (rule pow2_neg_mult)
  have spos: "0 < pow2 s" and nspos: "0 < pow2 (- s)" by (rule pow2_pos)+
  note rb = round_half_even_bounds [of "x * pow2 (- s)"]
  have low: "of_int A \<le> fl x"
  proof -
    have "of_int A * pow2 (- s) \<le> x * pow2 (- s)"
      using xlow less_imp_le [OF nspos] by (rule mult_right_mono)
    then have "of_int (A * 2 ^ nat (- s)) \<le> x * pow2 (- s)" by (simp add: P)
    then have "A * 2 ^ nat (- s) \<le> \<lfloor>x * pow2 (- s)\<rfloor>" by (simp only: le_floor_iff)
    with rb have "A * 2 ^ nat (- s) \<le> m" unfolding m_def by linarith
    then have "(of_int (A * 2 ^ nat (- s)) :: rat) \<le> of_int m" by (simp only: of_int_le_iff)
    then have "of_int A * pow2 (- s) \<le> of_int m" by (simp add: P)
    then have "of_int A * pow2 (- s) * pow2 s \<le> of_int m * pow2 s"
      using less_imp_le [OF spos] by (rule mult_right_mono)
    moreover have "of_int A * pow2 (- s) * pow2 s = of_int A"
      by (simp only: mult.assoc ps mult_1_right)
    ultimately show ?thesis by (simp only: flx)
  qed
  have half: "pow2 s / 2 < 1 / t"
  proof (cases "- 1074 \<le> e - 52")
    case True
    then have "s = e + (- 52)" by (simp add: s_def)
    then have "pow2 s = pow2 e * pow2 (- 52)" by (simp only: pow2_add)
    also have "\<dots> \<le> x * pow2 (- 52)"
      using ele less_imp_le [OF pow2_pos] by (rule mult_right_mono)
    also have "\<dots> < 10 ^ 15 / t * pow2 (- 52)"
      using xlt pow2_pos by (rule mult_strict_right_mono)
    finally have "pow2 s < 10 ^ 15 / t * pow2 (- 52)" .
    then have "pow2 s / 2 < 10 ^ 15 / t * pow2 (- 52) / 2" by simp
    also have "\<dots> = (10 ^ 15 * pow2 (- 52) / 2) * (1 / t)" by simp
    also have "\<dots> \<le> 1 * (1 / t)"
      using ten15_pow2_52 by (rule mult_right_mono) (use tpos in simp)
    finally show ?thesis by simp
  next
    case False
    then have "s = - 1074" by (simp add: s_def)
    then have "pow2 s / 2 < 1 / 10 ^ 15" using pow2_1074 by simp
    also have "\<dots> \<le> 1 / t"
      unfolding t_def using k by (intro divide_left_mono power_increasing) simp_all
    finally show ?thesis .
  qed
  have up: "fl x < of_int A + 1"
  proof -
    from rb have "of_int m \<le> x * pow2 (- s) + 1 / 2" unfolding m_def by simp
    then have "of_int m * pow2 s \<le> (x * pow2 (- s) + 1 / 2) * pow2 s"
      using less_imp_le [OF spos] by (rule mult_right_mono)
    also have "\<dots> = x * (pow2 (- s) * pow2 s) + pow2 s / 2" by (simp add: algebra_simps)
    also have "\<dots> = x + pow2 s / 2" by (simp only: ps mult_1_right)
    also have "\<dots> < x + 1 / t" using half by simp
    also have "\<dots> \<le> of_int A + 1" using xup by simp
    finally show ?thesis by (simp only: flx)
  qed
  from low up have "\<lfloor>fl x\<rfloor> = A" by (simp add: floor_unique)
  moreover from low A0 have "0 \<le> fl x" by (meson of_int_0_le_iff order_trans)
  ultimately show ?thesis by (simp add: x_def A_def)
qed

subsection \<open>Price Text Normalizer\<close>

lemma extract_price_run:
  "extract_price text =
     (case price_run text of
        None \<Rightarrow> Inr None
      | Some run \<Rightarrow>
          (case int_of_float_str (separators run) of
             Inl ValueError \<Rightarrow> Inr None
           | Inl e \<Rightarrow> Inl e
           | Inr n \<Rightarrow> Inr (Some n)))"
  by (simp add: extract_price_def price_run_def Let_def)

lemma py_in_single: "py_in [c] s \<longleftrightarrow> c \<in> set s"
  by (induction s) auto

lemma replace_single_nil: "replace [c] [] s = filter (\<lambda>x. x \<noteq> c) s"
  by (induction s) auto

lemma replace_single_single: "replace [c] [d] s = map (\<lambda>x. if x = c then d else x) s"
  by (induction s) auto

lemma set_replace_nil: "set (replace old [] s) \<subseteq> set s"
proof (induction old "[] :: str" s rule: replace.induct)
  case (1 old)
  then show ?case by simp
next
  case (2 old c cs)
  show ?case
  proof (cases "old \<noteq> [] \<and> prefix old (c # cs)")
    case True
    with 2 have "set (replace old [] (drop (length old) (c # cs))) \<subseteq> set (drop (length old) (c # cs))"
      by simp
    also have "\<dots> \<subseteq> set (c # cs)" by (rule set_drop_subset)
    finally show ?thesis using True by simp
  next
    case False
    with 2 have "set (replace old [] cs) \<subseteq> set cs" by simp
    with False show ?thesis by auto
  qed
qed

lemma set_strip: "set (strip s) \<subseteq> set s"
  by (auto simp: strip_def dest!: set_dropWhileD)

lemma search_price_run_Some:
  "search_price_run s = Some run \<Longrightarrow> run \<noteq> [] \<and> list_all price_char run \<and> set run \<subseteq> set s"
proof -
  assume a: "search_price_run s = Some run"
  then obtain c cs where d: "dropWhile (\<lambda>c. \<not> price_char c) s = c # cs"
    and run: "run = takeWhile price_char (c # cs)"
    by (auto simp: search_price_run_def split: list.splits)
  from d have "price_char c" by (metis (mono_tags, lifting) dropWhile_eq_Cons_conv)
  with run have ne: "run \<noteq> []" by simp
  have all: "list_all price_char run"
    unfolding run list_all_iff by (auto dest: set_takeWhileD)
  have "set run \<subseteq> set (c # cs)" unfolding run by (auto dest: set_takeWhileD)
  also have "\<dots> \<subseteq> set s" unfolding d [symmetric] by (auto dest: set_dropWhileD)
  finally show ?thesis using ne all by simp
qed

lemma price_run_Some:
  "price_run text = Some run \<Longrightarrow> run \<noteq> [] \<and> list_all price_char run \<and> set run \<subseteq> set text"
proof -
  assume a: "price_run text = Some run"
  let ?cleaned = "strip (replace (asc ''/u'') []
                       (replace (asc ''/un'') []
                          (replace (asc ''/kg'') []
                             (replace (asc ''G$'') []
                                (replace [8370] [] (replace (asc ''Gs'') [] text))))))"
  from a have s: "search_price_run ?cleaned = Some run"
    by (simp add: price_run_def split: if_splits)
  have "set ?cleaned \<subseteq> set text"
    by (meson set_strip set_replace_nil subset_trans)
  with search_price_run_Some [OF s] show ?thesis by blast
qed

lemma not_digit_separators: "\<not> is_digit 46" "\<not> is_digit 44"
  by (simp_all add: is_digit_def digit_value_def digit_zeros_def)

lemma digit_value_range: "digit_value c = Some v \<Longrightarrow> 0 \<le> v \<and> v \<le> 9"
proof -
  assume "digit_value c = Some v"
  then obtain z zs where f: "filter (\<lambda>z. z \<le> c \<and> c < z + 10) digit_zeros = z # zs"
    and v: "v = c - z"
    by (auto simp: digit_value_def split: list.splits)
  from f have "z \<in> set (filter (\<lambda>z. z \<le> c \<and> c < z + 10) digit_zeros)" by simp
  then have "z \<le> c \<and> c < z + 10" by simp
  with v show ?thesis by simp
qed

lemma foldl_digits:
  "list_all is_digit ds \<Longrightarrow>
     foldl (\<lambda>acc c. 10 * acc + the (digit_value c)) a ds = a * 10 ^ length ds + digits_value ds
     \<and> 0 \<le> digits_value ds \<and> digits_value ds < 10 ^ length ds"
proof (induction ds arbitrary: a rule: rev_induct)
  case Nil
  then show ?case by (simp add: digits_value_def)
next
  case (snoc c ds)
  then have ds: "list_all is_digit ds" and c: "is_digit c" by simp_all
  from c obtain v where v: "digit_value c = Some v" by (auto simp: is_digit_def)
  note r = digit_value_range [OF v]
  note IH = snoc.IH [OF ds]
  have dv: "digits_value (ds @ [c]) = 10 * digits_value ds + v"
    by (simp add: digits_value_def v)
  have "foldl (\<lambda>acc c. 10 * acc + the (digit_value c)) a (ds @ [c])
      = 10 * (a * 10 ^ length ds + digits_value ds) + v"
    using IH [of a] by (simp add: v)
  also have "\<dots> = a * 10 ^ length (ds @ [c]) + digits_value (ds @ [c])"
    by (simp add: dv algebra_simps)
  finally have 1: "foldl (\<lambda>acc c. 10 * acc + the (digit_value c)) a (ds @ [c])
      = a * 10 ^ length (ds @ [c]) + digits_value (ds @ [c])" .
  from IH [of 0] r have 2: "0 \<le> digits_value (ds @ [c])" by (simp add: dv)
  from IH [of 0] have "digits_value ds + 1 \<le> 10 ^ length ds" by simp
  then have "10 * digits_value ds + 10 \<le> 10 * 10 ^ length ds" by simp
  with r have 3: "digits_value (ds @ [c]) < 10 ^ length (ds @ [c])" by (simp add: dv)
  from 1 2 3 show ?case by simp
qed

lemma last_split_on:
  "last (split_on sep s) = rev (takeWhile (\<lambda>c. c \<noteq> sep) (rev s))
   \<and> split_on sep s \<noteq> [] \<and> (tl (split_on sep s) = [] \<longleftrightarrow> sep \<notin> set s)"
proof (induction s)
  case Nil
  then show ?case by simp
next
  case (Cons c cs)
  then have IH: "last (split_on sep cs) = rev (takeWhile (\<lambda>c. c \<noteq> sep) (rev cs))"
    "split_on sep cs \<noteq> []" "tl (split_on sep cs) = [] \<longleftrightarrow> sep \<notin> set cs" by simp_all
  show ?case
  proof (cases "c = sep")
    case True
    then show ?thesis using IH by (auto simp: takeWhile_append)
  next
    case False
    show ?thesis
    proof (cases "sep \<in> set cs")
      case True
      with IH(3) have "tl (split_on sep cs) \<noteq> []" by simp
      then have "last ((c # hd (split_on sep cs)) # tl (split_on sep cs)) = last (split_on sep cs)"
        using IH(2) by (metis last_ConsR last_tl)
      with False True IH show ?thesis by (auto simp: takeWhile_append)
    next
      case notin: False
      with IH(3) have t: "tl (split_on sep cs) = []" by simp
      with IH(2) have "split_on sep cs = [hd (split_on sep cs)]" by (metis list.collapse)
      then have "last (split_on sep cs) = hd (split_on sep cs)" by (metis last.simps)
      moreover have "takeWhile (\<lambda>c. c \<noteq> sep) (rev cs) = rev cs"
        using notin by (auto simp: takeWhile_eq_all_conv)
      ultimately show ?thesis using False notin IH t by (auto simp: takeWhile_append)
    qed
  qed
qed

lemma float_literal_no_digit:
  assumes "\<forall>c \<in> set s. \<not> is_digit c"
  shows "float_literal s = None"
proof (cases s)
  case Nil
  then show ?thesis by (simp add: float_literal_def)
next
  case (Cons c fp)
  with assms have c: "\<not> is_digit c" and fp: "\<forall>x \<in> set fp. \<not> is_digit x" by simp_all
  have "\<not> (list_all is_digit fp \<and> fp \<noteq> [])"
    using fp by (cases fp) simp_all
  with c show ?thesis by (auto simp: float_literal_def Cons)
qed

lemma float_literal_digits:
  assumes "list_all is_digit ds" "ds \<noteq> []"
  shows "float_literal ds = Some (of_int (digits_value ds))"
proof -
  from assms(1) have tw: "takeWhile is_digit ds = ds" and dw: "dropWhile is_digit ds = []"
    by (simp_all add: list_all_iff)
  show ?thesis unfolding float_literal_def Let_def tw dw using assms(2) by simp
qed

lemma float_literal_decimal:
  assumes "list_all is_digit ip" "list_all is_digit fp" "ip \<noteq> [] \<or> fp \<noteq> []"
  shows "float_literal (ip @ 46 # fp)
         = Some (of_int (digits_value ip) + of_int (digits_value fp) / of_int (10 ^ length fp))"
proof -
  from assms(1) have tw: "takeWhile is_digit (ip @ 46 # fp) = ip"
    and dw: "dropWhile is_digit (ip @ 46 # fp) = 46 # fp"
    by (simp_all add: list_all_iff takeWhile_append dropWhile_append not_digit_separators)
  show ?thesis unfolding float_literal_def Let_def tw dw using assms(2,3) by simp
qed

lemma float_literal_two_points:
  assumes chars: "\<forall>c \<in> set s. is_digit c \<or> c = 46"
    and two: "2 \<le> length (filter (\<lambda>c. c = 46) s)"
  shows "float_literal s = None"
proof -
  let ?ip = "takeWhile is_digit s" and ?rest = "dropWhile is_digit s"
  have "\<forall>x \<in> set ?ip. x \<noteq> 46"
    using not_digit_separators(1) by (auto dest: set_takeWhileD)
  then have ipn: "filter (\<lambda>c. c = 46) ?ip = []"
    by (simp only: filter_empty_conv simp_thms not_False_eq_True)
  have "filter (\<lambda>c. c = 46) s = filter (\<lambda>c. c = 46) (?ip @ ?rest)" by simp
  also have "\<dots> = filter (\<lambda>c. c = 46) ?rest" by (simp only: filter_append ipn append_Nil)
  finally have rest2: "2 \<le> length (filter (\<lambda>c. c = 46) ?rest)" using two by simp
  then obtain c fp where rest: "?rest = c # fp" by (cases ?rest) auto
  from rest have nd: "\<not> is_digit c" by (simp add: dropWhile_eq_Cons_conv)
  have "c \<in> set ?rest" by (simp add: rest)
  then have "c \<in> set s" by (rule set_dropWhileD)
  with nd chars have c: "c = 46" by blast
  from rest2 have "1 \<le> length (filter (\<lambda>c. c = 46) fp)" by (simp add: rest c)
  then have "filter (\<lambda>c. c = 46) fp \<noteq> []" by auto
  then have "46 \<in> set fp" by (auto simp: filter_empty_conv)
  then have "\<not> list_all is_digit fp" using not_digit_separators(1) by (auto simp: list_all_iff)
  then show ?thesis unfolding float_literal_def Let_def rest by simp
qed

lemma int_of_float_str_value:
  assumes lit: "float_literal s = Some v" and pos: "0 \<le> fl v"
    and fl: "\<lfloor>fl v\<rfloor> = a" and a15: "a < 10 ^ 15"
  shows "int_of_float_str s = Inr a"
proof -
  have "fl v < of_int \<lfloor>fl v\<rfloor> + 1" by linarith
  also have "\<dots> = of_int (a + 1)" by (simp add: fl)
  also have "\<dots> \<le> of_int (10 ^ 15)" using a15 by (simp only: of_int_le_iff)
  also have "\<dots> = 10 ^ 15" by simp
  also have "\<dots> < pow2 1024" by (rule ten15_lt_pow2_1024)
  finally have "\<not> pow2 1024 \<le> fl v" by simp
  then show ?thesis
    unfolding int_of_float_str_def lit py_int_def using pos fl by simp
qed

lemma int_of_float_str_digits:
  assumes ip: "list_all is_digit ip" and ne: "ip \<noteq> []" and len: "length ip \<le> 15"
  shows "int_of_float_str ip = Inr (digits_value ip)"
proof -
  define a where "a = digits_value ip"
  from foldl_digits [OF ip, of 0] have a: "0 \<le> a" "a < 10 ^ length ip" by (simp_all add: a_def)
  have "(10::int) ^ length ip \<le> 10 ^ 15" using len by (intro power_increasing) simp_all
  with a have a15: "a < 10 ^ 15" by linarith
  from fl_floor_decimal [OF a(1) a15, of 0]
  have G: "\<lfloor>fl (of_int a)\<rfloor> = a" "0 \<le> fl (of_int a)" by simp_all
  have lit: "float_literal ip = Some (of_int a)"
    using float_literal_digits [OF ip ne] by (simp add: a_def)
  from int_of_float_str_value [OF lit G(2) G(1) a15] show ?thesis by (simp add: a_def)
qed

lemma int_of_float_str_decimal:
  assumes ip: "list_all is_digit ip" and fp: "list_all is_digit fp"
    and ne: "ip \<noteq> [] \<or> fp \<noteq> []" and len: "length ip + length fp \<le> 15"
  shows "int_of_float_str (ip @ 46 # fp) = Inr (digits_value ip)"
proof -
  define a where "a = digits_value ip"
  define b where "b = digits_value fp"
  define k where "k = length fp"
  define t :: int where "t = 10 ^ k"
  from foldl_digits [OF ip, of 0] have a: "0 \<le> a" "a < 10 ^ length ip" by (simp_all add: a_def)
  from foldl_digits [OF fp, of 0] have b: "0 \<le> b" "b < t" by (simp_all add: b_def k_def t_def)
  have t0: "0 < t" by (simp add: t_def)
  have k15: "k \<le> 15" using len by (simp add: k_def)
  define n where "n = a * t + b"
  have "0 \<le> a * t" using a(1) t0 by simp
  with b have n0: "0 \<le> n" by (simp add: n_def)
  have "a + 1 \<le> 10 ^ length ip" using a by simp
  then have "(a + 1) * t \<le> 10 ^ length ip * t" using t0 by (intro mult_right_mono) simp_all
  also have "\<dots> = 10 ^ (length ip + k)" by (simp add: power_add t_def)
  also have "\<dots> \<le> (10::int) ^ 15" using len by (intro power_increasing) (simp_all add: k_def)
  finally have le: "(a + 1) * t \<le> 10 ^ 15" .
  have "n < (a + 1) * t" using b by (simp add: n_def algebra_simps)
  with le have n15: "n < 10 ^ 15" by linarith
  have ndiv: "n div t = a" using b t0 by (simp add: n_def)
  have "a * 1 \<le> a * t" using a(1) t0 by (intro mult_left_mono) simp_all
  then have "a \<le> n" using b by (simp add: n_def)
  with n15 have a15: "a < 10 ^ 15" by linarith
  have tr: "(of_int t :: rat) \<noteq> 0" using t0 by simp
  have "(of_int n :: rat) / of_int t = (of_int a * of_int t + of_int b) / of_int t"
    by (simp add: n_def)
  also have "\<dots> = of_int a + of_int b / of_int t"
    using tr by (simp add: add_divide_distrib)
  finally have val: "of_int a + of_int b / of_int t = (of_int n :: rat) / of_int t" by simp
  have tk: "(of_int t :: rat) = 10 ^ k" by (simp add: t_def)
  from fl_floor_decimal [OF n0 n15 k15] ndiv
  have F: "\<lfloor>fl (of_int n / of_int t)\<rfloor> = a" "0 \<le> fl (of_int n / of_int t)"
    by (simp_all add: tk t_def)
  have lit: "float_literal (ip @ 46 # fp) = Some (of_int n / of_int t)"
    using float_literal_decimal [OF ip fp] ne val by (simp add: a_def b_def k_def t_def)
  from int_of_float_str_value [OF lit F(2) F(1) a15] show ?thesis by (simp add: a_def)
qed

lemma asc_separators: "asc ''.'' = [46]" "asc '','' = [44]"
  by (simp_all add: asc_def)

lemma separators_cases:
  "separators run =
     (if 46 \<in> set run \<and> 44 \<in> set run
      then map (\<lambda>c. if c = 44 then 46 else c) (filter (\<lambda>c. c \<noteq> 46) run)
      else if 46 \<in> set run
      then (if length (rev (takeWhile (\<lambda>c. c \<noteq> 46) (rev run))) = 3
            then filter (\<lambda>c. c \<noteq> 46) run else run)
      else if 44 \<in> set run then filter (\<lambda>c. c \<noteq> 44) run
      else run)"
  by (simp add: separators_def asc_separators py_in_single replace_single_nil
        replace_single_single last_split_on Let_def)

lemma separators_spec_separators:
  assumes run: "list_all price_char run" and one: "\<not> (46 \<in> set run \<and> 44 \<in> set run)"
  shows "separators run = spec_separators run"
proof (cases "46 \<in> set run")
  case True
  with one have no: "44 \<notin> set run" by simp
  let ?segment = "rev (takeWhile (\<lambda>c. c \<noteq> 46) (rev run))"
  have "list_all is_digit ?segment"
  proof -
    have "is_digit c" if "c \<in> set (takeWhile (\<lambda>c. c \<noteq> 46) (rev run))" for c
    proof -
      from that have "c \<in> set (rev run)" and "c \<noteq> 46" by (auto dest: set_takeWhileD)
      then have "c \<in> set run" by simp
      with run no \<open>c \<noteq> 46\<close> show ?thesis by (auto simp: list_all_iff price_char_def)
    qed
    then show ?thesis by (simp add: list_all_iff)
  qed
  with True no show ?thesis by (simp add: separators_cases spec_separators_def Let_def)
next
  case False
  then show ?thesis by (simp add: separators_cases spec_separators_def)
qed

lemma filter_digit_no_point:
  "filter is_digit (filter (\<lambda>c. c \<noteq> 46) run) = filter is_digit run"
proof -
  have "filter is_digit (filter (\<lambda>c. c \<noteq> 46) run) = filter (\<lambda>c. c \<noteq> 46 \<and> is_digit c) run"
    by (simp add: conj_commute)
  also have "\<dots> = filter is_digit run"
    using not_digit_separators(1) by (intro filter_cong) auto
  finally show ?thesis .
qed

lemma filter_comma_no_point:
  "filter (\<lambda>c. c = 44) (filter (\<lambda>c. c \<noteq> 46) run) = filter (\<lambda>c. c = (44::int)) run"
proof -
  have "filter (\<lambda>c. c = 44) (filter (\<lambda>c. c \<noteq> 46) run)
        = filter (\<lambda>c. c \<noteq> 46 \<and> c = (44::int)) run"
    by (simp add: conj_commute)
  also have "\<dots> = filter (\<lambda>c. c = 44) run" by (intro filter_cong) auto
  finally show ?thesis .
qed

lemma one_comma_run:
  assumes run: "list_all price_char run"
    and one: "length (filter (\<lambda>c. c = 44) run) = 1"
  shows "\<exists>fp. filter (\<lambda>c. c \<noteq> 46) run = takeWhile (\<lambda>c. c \<noteq> 44) (filter (\<lambda>c. c \<noteq> 46) run) @ 44 # fp
              \<and> list_all is_digit (takeWhile (\<lambda>c. c \<noteq> 44) (filter (\<lambda>c. c \<noteq> 46) run)) \<and> list_all is_digit fp
              \<and> length (takeWhile (\<lambda>c. c \<noteq> 44) (filter (\<lambda>c. c \<noteq> 46) run)) + length fp = length (filter is_digit run)"
proof -
  let ?r = "filter (\<lambda>c. c \<noteq> 46) run"
  let ?ip = "takeWhile (\<lambda>c. c \<noteq> 44) ?r"
  let ?rest = "dropWhile (\<lambda>c. c \<noteq> 44) ?r"
  have cnt: "length (filter (\<lambda>c. c = 44) ?r) = 1" by (simp only: filter_comma_no_point one)
  have rchar: "is_digit c \<or> c = 44" if "c \<in> set ?r" for c
    using that run by (auto simp: list_all_iff price_char_def)
  have ipn: "filter (\<lambda>c. c = 44) ?ip = []"
    by (auto simp: filter_empty_conv dest: set_takeWhileD)
  have "filter (\<lambda>c. c = 44) ?r = filter (\<lambda>c. c = 44) (?ip @ ?rest)" by simp
  also have "\<dots> = filter (\<lambda>c. c = 44) ?rest" by (simp only: filter_append ipn append_Nil)
  finally have cr: "length (filter (\<lambda>c. c = 44) ?rest) = 1" using cnt by simp
  then obtain c fp where rest: "?rest = c # fp" by (cases ?rest) auto
  from rest have c: "c = 44" by (simp add: dropWhile_eq_Cons_conv)
  from cr have "filter (\<lambda>c. c = 44) fp = []" by (simp add: rest c)
  then have fpn: "44 \<notin> set fp" by (auto simp: filter_empty_conv)
  have split: "?r = ?ip @ 44 # fp"
  proof -
    have "?r = ?ip @ ?rest" by simp
    then show ?thesis by (simp only: rest c)
  qed
  have dip: "list_all is_digit ?ip"
  proof -
    have "is_digit x" if "x \<in> set ?ip" for x
    proof -
      from that have "x \<in> set ?r" and "x \<noteq> 44" by (auto dest: set_takeWhileD)
      with rchar show ?thesis by blast
    qed
    then show ?thesis by (simp add: list_all_iff)
  qed
  have dfp: "list_all is_digit fp"
  proof -
    have "is_digit x" if "x \<in> set fp" for x
    proof -
      from that have "x \<in> set ?rest" by (simp add: rest)
      then have "x \<in> set ?r" by (rule set_dropWhileD)
      moreover from that fpn have "x \<noteq> 44" by auto
      ultimately show ?thesis using rchar by blast
    qed
    then show ?thesis by (simp add: list_all_iff)
  qed
  have "filter is_digit run = filter is_digit ?r" by (simp only: filter_digit_no_point)
  also have "\<dots> = filter is_digit (?ip @ 44 # fp)" using split by simp
  also have "\<dots> = ?ip @ fp"
    using dip dfp not_digit_separators(2) by (simp add: list_all_iff filter_id_conv)
  finally have "length (filter is_digit run) = length ?ip + length fp" by simp
  with split dip dfp show ?thesis by (intro exI [of _ fp]) simp
qed

lemma separators_chars: "set (separators run) \<subseteq> set run \<union> {46}"
  by (auto simp: separators_cases)

lemma int_of_float_str_no_digit:
  assumes "\<forall>c \<in> set s. \<not> is_digit c"
  shows "int_of_float_str s = Inl ValueError"
  by (simp add: int_of_float_str_def float_literal_no_digit [OF assms])

lemma extract_price_no_digit:
  assumes "\<forall>c \<in> set text. \<not> is_digit c"
  shows "extract_price text = Inr None"
proof (cases "price_run text")
  case None
  then show ?thesis by (simp add: extract_price_run)
next
  case (Some run)
  from price_run_Some [OF Some] have "set run \<subseteq> set text" by simp
  with separators_chars [of run] have "set (separators run) \<subseteq> set text \<union> {46}" by blast
  with assms not_digit_separators(1) have "\<forall>c \<in> set (separators run). \<not> is_digit c" by auto
  from int_of_float_str_no_digit [OF this] show ?thesis by (simp add: extract_price_run Some)
qed

lemma extract_price_one_comma:
  assumes run: "price_run text = Some run"
    and point: "46 \<in> set run"
    and one: "length (filter (\<lambda>c. c = 44) run) = 1"
    and digit: "\<exists>c \<in> set run. is_digit c"
    and len: "length (filter is_digit run) \<le> 15"
  shows "extract_price text = Inr (Some (digits_value (spec_separators run)))"
    and "spec_normalize text =
           (if spec_separators run = [] then Inr None
            else Inr (Some (digits_value (spec_separators run))))"
proof -
  let ?ip = "takeWhile (\<lambda>c. c \<noteq> 44) (filter (\<lambda>c. c \<noteq> 46) run)"
  from price_run_Some [OF run] have chars: "list_all price_char run" by simp
  from one have "filter (\<lambda>c. c = 44) run \<noteq> []" by auto
  then have comma: "44 \<in> set run" by (auto simp: filter_empty_conv)
  from one_comma_run [OF chars one] obtain fp
    where split: "filter (\<lambda>c. c \<noteq> 46) run = ?ip @ 44 # fp"
      and ip: "list_all is_digit ?ip" and fp: "list_all is_digit fp"
      and n: "length ?ip + length fp = length (filter is_digit run)"
    by blast
  have spec: "spec_separators run = ?ip" using point comma by (simp add: spec_separators_def)
  have keep: "map (\<lambda>c. if c = 44 then 46 else c) ds = ds" if "list_all is_digit ds" for ds
    using that not_digit_separators(2) by (intro map_idI) (auto simp: list_all_iff)
  have s1: "separators run = map (\<lambda>c. if c = 44 then 46 else c) (filter (\<lambda>c. c \<noteq> 46) run)"
    using point comma by (simp add: separators_cases)
  have s2: "map (\<lambda>c. if c = 44 then 46 else c) (filter (\<lambda>c. c \<noteq> 46) run)
            = map (\<lambda>c. if c = 44 then 46 else c) (?ip @ 44 # fp)"
    by (rule arg_cong [OF split])
  have s3: "map (\<lambda>c. if c = 44 then 46 else c) (?ip @ 44 # fp) = ?ip @ 46 # fp"
    by (simp add: keep [OF ip] keep [OF fp])
  have sep: "separators run = ?ip @ 46 # fp"
    by (rule trans [OF s1 trans [OF s2 s3]])
  from digit have "filter is_digit run \<noteq> []" by (auto simp: filter_empty_conv)
  with n have ne: "?ip \<noteq> [] \<or> fp \<noteq> []" by auto
  from len n have len': "length ?ip + length fp \<le> 15" by simp
  from int_of_float_str_decimal [OF ip fp ne len']
  show "extract_price text = Inr (Some (digits_value (spec_separators run)))"
    by (simp add: extract_price_run run sep spec)
  show "spec_normalize text =
           (if spec_separators run = [] then Inr None
            else Inr (Some (digits_value (spec_separators run))))"
  proof (cases "?ip = []")
    case True
    have "int_of_float_str [] = Inl ValueError"
      by (simp add: int_of_float_str_def float_literal_def)
    with True show ?thesis by (simp add: spec_normalize_def run spec)
  next
    case False
    from len' have "length ?ip \<le> 15" by simp
    from int_of_float_str_digits [OF ip False this] False
    show ?thesis by (simp add: spec_normalize_def run spec)
  qed
qed

lemma extract_price_two_commas:
  assumes run: "price_run text = Some run"
    and point: "46 \<in> set run"
    and two: "2 \<le> length (filter (\<lambda>c. c = 44) run)"
  shows "extract_price text = Inr None"
proof -
  let ?f = "\<lambda>c::int. if c = 44 then 46 else c"
  let ?r = "filter (\<lambda>c. c \<noteq> 46) run"
  from price_run_Some [OF run] have chars: "list_all price_char run" by simp
  from two have "filter (\<lambda>c. c = 44) run \<noteq> []" by auto
  then have comma: "44 \<in> set run" by (auto simp: filter_empty_conv)
  have sep: "separators run = map ?f ?r" using point comma by (simp add: separators_cases)
  have c: "\<forall>c \<in> set (map ?f ?r). is_digit c \<or> c = 46"
    using chars by (auto simp: list_all_iff price_char_def)
  have "filter (\<lambda>c. c = 46) (map ?f ?r) = map ?f (filter (\<lambda>c. ?f c = 46) ?r)"
    by (simp add: filter_map comp_def)
  also have "filter (\<lambda>c. ?f c = 46) ?r = filter (\<lambda>c. c = 44) ?r"
    by (intro filter_cong) auto
  finally have "length (filter (\<lambda>c. c = 46) (map ?f ?r)) = length (filter (\<lambda>c. c = 44) ?r)"
    by (simp only: length_map)
  then have "length (filter (\<lambda>c. c = 46) (map ?f ?r)) = length (filter (\<lambda>c. c = 44) run)"
    by (simp only: filter_comma_no_point)
  with two have "2 \<le> length (filter (\<lambda>c. c = 46) (map ?f ?r))" by simp
  from float_literal_two_points [OF c this]
  show ?thesis by (simp add: extract_price_run run sep int_of_float_str_def)
qed

text \<open>
  C2, as amended. The normalizer returns no price when the cleaned text has no run of
  digits and separators, and whenever the text has no digit. On the run it extracts, the
  branch taken by the code is the one of the specification's precedence whenever at most
  one of the two separators occurs: with only \<open>.\<close> the dots are removed exactly when the
  segment after the last one has exactly three digits, with only \<open>,\<close> the commas are
  removed. When both occur the code removes every \<open>.\<close>, turns every \<open>,\<close> into a decimal
  point and truncates the floating-point value of the result: with exactly one comma and
  at most 15 digits this is the number written by the digits before the comma (0 when no
  digit precedes it, where dropping everything from the comma leaves nothing to parse);
  with two or more commas the result is no price. The four examples evaluate as stated.
\<close>

theorem extract_price_separator_precedence:
  "(price_run text = None \<longrightarrow> extract_price text = Inr None)
   \<and> ((\<forall>c \<in> set text. \<not> is_digit c) \<longrightarrow> extract_price text = Inr None)
   \<and> (price_run text = Some run \<and> \<not> (46 \<in> set run \<and> 44 \<in> set run) \<longrightarrow>
        separators run = spec_separators run \<and> extract_price text = spec_normalize text)
   \<and> (price_run text = Some run \<and> 46 \<in> set run \<and> 44 \<in> set run \<longrightarrow>
        separators run = map (\<lambda>c. if c = 44 then 46 else c) (filter (\<lambda>c. c \<noteq> 46) run))
   \<and> (price_run text = Some run \<and> 46 \<in> set run \<and> length (filter (\<lambda>c. c = 44) run) = 1
        \<and> (\<exists>c \<in> set run. is_digit c) \<and> length (filter is_digit run) \<le> 15 \<longrightarrow>
        extract_price text = Inr (Some (digits_value (spec_separators run)))
        \<and> (spec_separators run \<noteq> [] \<longrightarrow> spec_normalize text = extract_price text)
        \<and> (spec_separators run = [] \<longrightarrow> spec_normalize text = Inr None))
   \<and> (price_run text = Some run \<and> 46 \<in> set run \<and> 2 \<le> length (filter (\<lambda>c. c = 44) run) \<longrightarrow>
        extract_price text = Inr None)
   \<and> extract_price ([8370, 32] @ asc ''17.950'') = Inr (Some 17950)
   \<and> extract_price (asc ''Gs 1.234,56'') = Inr (Some 1234)
   \<and> extract_price ([8370] @ asc ''17,950'') = Inr (Some 17950)
   \<and> extract_price (asc ''no digits here'') = Inr None"
proof -
  have none: "price_run text = None \<longrightarrow> extract_price text = Inr None"
    by (simp add: extract_price_run)
  have nodigit: "(\<forall>c \<in> set text. \<not> is_digit c) \<longrightarrow> extract_price text = Inr None"
    using extract_price_no_digit [of "text"] by blast
  have single: "price_run text = Some run \<and> \<not> (46 \<in> set run \<and> 44 \<in> set run) \<longrightarrow>
        separators run = spec_separators run \<and> extract_price text = spec_normalize text"
  proof (intro impI, elim conjE)
    assume run: "price_run text = Some run" and one: "\<not> (46 \<in> set run \<and> 44 \<in> set run)"
    from price_run_Some [OF run] have "list_all price_char run" by simp
    from separators_spec_separators [OF this one]
    show "separators run = spec_separators run \<and> extract_price text = spec_normalize text"
      by (simp add: extract_price_run spec_normalize_def run)
  qed
  have both: "price_run text = Some run \<and> 46 \<in> set run \<and> 44 \<in> set run \<longrightarrow>
        separators run = map (\<lambda>c. if c = 44 then 46 else c) (filter (\<lambda>c. c \<noteq> 46) run)"
    by (simp add: separators_cases)
  have one: "price_run text = Some run \<and> 46 \<in> set run \<and> length (filter (\<lambda>c. c = 44) run) = 1
        \<and> (\<exists>c \<in> set run. is_digit c) \<and> length (filter is_digit run) \<le> 15 \<longrightarrow>
        extract_price text = Inr (Some (digits_value (spec_separators run)))
        \<and> (spec_separators run \<noteq> [] \<longrightarrow> spec_normalize text = extract_price text)
        \<and> (spec_separators run = [] \<longrightarrow> spec_normalize text = Inr None)"
  proof (intro impI, elim conjE)
    assume a: "price_run text = Some run" "46 \<in> set run"
      "length (filter (\<lambda>c. c = 44) run) = 1" "\<exists>c \<in> set run. is_digit c"
      "length (filter is_digit run) \<le> 15"
    note code = extract_price_one_comma(1) [OF a] and spec = extract_price_one_comma(2) [OF a]
    show "extract_price text = Inr (Some (digits_value (spec_separators run)))
        \<and> (spec_separators run \<noteq> [] \<longrightarrow> spec_normalize text = extract_price text)
        \<and> (spec_separators run = [] \<longrightarrow> spec_normalize text = Inr None)"
      by (simp add: code spec)
  qed
  have two: "price_run text = Some run \<and> 46 \<in> set run \<and> 2 \<le> length (filter (\<lambda>c. c = 44) run) \<longrightarrow>
        extract_price text = Inr None"
    using extract_price_two_commas [of "text" run] by blast
  have e1: "extract_price ([8370, 32] @ asc ''17.950'') = Inr (Some 17950)" by code_simp
  have e2: "extract_price (asc ''Gs 1.234,56'') = Inr (Some 1234)" by code_simp
  have e3: "extract_price ([8370] @ asc ''17,950'') = Inr (Some 17950)" by code_simp
  have e4: "extract_price (asc ''no digits here'') = Inr None" by code_simp
  from none nodigit single both one two e1 e2 e3 e4 show ?thesis by (intro conjI)
qed

text \<open>
  C2 as stated fails when no digit precedes the comma: in \<open>kg,1.500\<close> the run is
  \<open>,1.500\<close>; removing the dots and dropping everything from the comma leaves nothing, which
  is no price, but the code reads \<open>.1500\<close> and returns the price 0.
\<close>

theorem extract_price_leading_comma_is_zero:
  "extract_price (asc ''kg,1.500'') = Inr (Some 0)
   \<and> price_run (asc ''kg,1.500'') = Some (asc '',1.500'')
   \<and> spec_separators (asc '',1.500'') = []
   \<and> spec_normalize (asc ''kg,1.500'') = Inr None"
proof -
  have "extract_price (asc ''kg,1.500'') = Inr (Some 0)" by code_simp
  moreover have "price_run (asc ''kg,1.500'') = Some (asc '',1.500'')" by code_simp
  moreover have "spec_separators (asc '',1.500'') = []" by code_simp
  moreover have "spec_normalize (asc ''kg,1.500'') = Inr None" by code_simp
  ultimately show ?thesis by (intro conjI)
qed

text \<open>
  The statement at five texts: one without digits, one with dots only, one with both
  separators and a digit before the single comma, one with both and the comma first,
  and one with two commas.
\<close>

theorem extract_price_separator_precedence_witness:
  "price_run (asc ''no digits here'') = None
   \<and> list_all (\<lambda>c. \<not> is_digit c) (asc ''no digits here'')
   \<and> extract_price (asc ''no digits here'') = Inr None
   \<and> price_run ([8370, 32] @ asc ''17.950'') = Some (asc ''17.950'')
   \<and> separators (asc ''17.950'') = asc ''17950''
   \<and> spec_normalize ([8370, 32] @ asc ''17.950'') = Inr (Some 17950)
   \<and> price_run (asc ''Gs 1.234,56'') = Some (asc ''1.234,56'')
   \<and> separators (asc ''1.234,56'') = asc ''1234.56''
   \<and> spec_separators (asc ''1.234,56'') = asc ''1234''
   \<and> spec_normalize (asc ''Gs 1.234,56'') = Inr (Some 1234)
   \<and> price_run (asc ''kg,1.500'') = Some (asc '',1.500'')
   \<and> spec_separators (asc '',1.500'') = []
   \<and> extract_price (asc ''kg,1.500'') = Inr (Some 0)
   \<and> price_run (asc ''1,234,567.89'') = Some (asc ''1,234,567.89'')
   \<and> extract_price (asc ''1,234,567.89'') = Inr None"
proof -
  note a = extract_price_separator_precedence [of "asc ''no digits here''" "[]"]
  note b = extract_price_separator_precedence [of "[8370, 32] @ asc ''17.950''" "asc ''17.950''"]
  note c = extract_price_separator_precedence [of "asc ''Gs 1.234,56''" "asc ''1.234,56''"]
  note d = extract_price_separator_precedence [of "asc ''kg,1.500''" "asc '',1.500''"]
  note e = extract_price_separator_precedence [of "asc ''1,234,567.89''" "asc ''1,234,567.89''"]
  have a1: "price_run (asc ''no digits here'') = None" by code_simp
  have a2: "list_all (\<lambda>c. \<not> is_digit c) (asc ''no digits here'')" by code_simp
  then have "\<forall>c \<in> set (asc ''no digits here''). \<not> is_digit c" by (simp only: list_all_iff)
  with a have a3: "extract_price (asc ''no digits here'') = Inr None" by blast
  have b1: "price_run ([8370, 32] @ asc ''17.950'') = Some (asc ''17.950'')" by code_simp
  have b2: "\<not> (46 \<in> set (asc ''17.950'') \<and> 44 \<in> set (asc ''17.950''))" by code_simp
  have b3: "spec_separators (asc ''17.950'') = asc ''17950''" by code_simp
  from b b1 b2 have b4: "separators (asc ''17.950'') = spec_separators (asc ''17.950'')"
    and b5: "extract_price ([8370, 32] @ asc ''17.950'') = spec_normalize ([8370, 32] @ asc ''17.950'')"
    and b6: "extract_price ([8370, 32] @ asc ''17.950'') = Inr (Some 17950)"
    by blast+
  from b4 b3 have b7: "separators (asc ''17.950'') = asc ''17950''" by simp
  from b5 b6 have b8: "spec_normalize ([8370, 32] @ asc ''17.950'') = Inr (Some 17950)" by simp
  have c1: "price_run (asc ''Gs 1.234,56'') = Some (asc ''1.234,56'')" by code_simp
  have c2: "46 \<in> set (asc ''1.234,56'')" "44 \<in> set (asc ''1.234,56'')" by code_simp+
  have c3: "length (filter (\<lambda>c. c = 44) (asc ''1.234,56'')) = 1" by code_simp
  have c4: "\<exists>c \<in> set (asc ''1.234,56''). is_digit c" by code_simp
  have c5: "length (filter is_digit (asc ''1.234,56'')) \<le> 15" by code_simp
  have c6: "spec_separators (asc ''1.234,56'') = asc ''1234''" by code_simp
  have c7: "map (\<lambda>c. if c = 44 then 46 else c) (filter (\<lambda>c. c \<noteq> 46) (asc ''1.234,56''))
            = asc ''1234.56''" by code_simp
  have c8: "asc ''1234'' \<noteq> []" by (simp add: asc_def)
  from c c1 c2 have "separators (asc ''1.234,56'')
      = map (\<lambda>c. if c = 44 then 46 else c) (filter (\<lambda>c. c \<noteq> 46) (asc ''1.234,56''))"
    by blast
  with c7 have c9: "separators (asc ''1.234,56'') = asc ''1234.56''" by simp
  from c c1 c2 c3 c4 c5 have "spec_separators (asc ''1.234,56'') \<noteq> [] \<longrightarrow>
      spec_normalize (asc ''Gs 1.234,56'') = extract_price (asc ''Gs 1.234,56'')"
    and "extract_price (asc ''Gs 1.234,56'') = Inr (Some 1234)"
    by blast+
  with c6 c8 have c10: "spec_normalize (asc ''Gs 1.234,56'') = Inr (Some 1234)" by simp
  have d1: "price_run (asc ''kg,1.500'') = Some (asc '',1.500'')" by code_simp
  have d2: "46 \<in> set (asc '',1.500'')" by code_simp
  have d3: "length (filter (\<lambda>c. c = 44) (asc '',1.500'')) = 1" by code_simp
  have d4: "\<exists>c \<in> set (asc '',1.500''). is_digit c" by code_simp
  have d5: "length (filter is_digit (asc '',1.500'')) \<le> 15" by code_simp
  have d6: "spec_separators (asc '',1.500'') = []" by code_simp
  have d7: "digits_value [] = 0" by (simp add: digits_value_def)
  from d d1 d2 d3 d4 d5
  have "extract_price (asc ''kg,1.500'') = Inr (Some (digits_value (spec_separators (asc '',1.500''))))"
    by blast
  with d6 d7 have d8: "extract_price (asc ''kg,1.500'') = Inr (Some 0)" by simp
  have e1: "price_run (asc ''1,234,567.89'') = Some (asc ''1,234,567.89'')" by code_simp
  have e2: "46 \<in> set (asc ''1,234,567.89'')" by code_simp
  have e3: "2 \<le> length (filter (\<lambda>c. c = 44) (asc ''1,234,567.89''))" by code_simp
  from e e1 e2 e3 have e4: "extract_price (asc ''1,234,567.89'') = Inr None" by blast
  from a1 a2 a3 b1 b7 b8 c1 c9 c6 c10 d1 d6 d8 e1 e4 show ?thesis by (intro conjI)
qed

subsection \<open>Produce Classifier\<close>

text \<open>
  C6. For every listing name the classifier is the ordered rule list of the
  specification, evaluated top to bottom with the first match winning: false when the
  lowercased name contains an exclusion term, else true when it contains an inclusion
  term, else true when it contains \<open>kg\<close>, else true. \<open>Tomate frito en lata\<close> is
  classified false and \<open>Tomate Lisa x kg\<close> true.
\<close>

theorem is_fresh_produce_policy:
  "is_fresh_produce name = classifier_policy name
   \<and> is_fresh_produce name =
       (if contains_any exclude_terms (lower name) then False
        else if contains_any include_terms (lower name) then True
        else if sublist (asc ''kg'') (lower name) then True
        else True)
   \<and> is_fresh_produce (asc ''Tomate frito en lata'') = False
   \<and> is_fresh_produce (asc ''Tomate Lisa x kg'') = True"
proof -
  have chain: "is_fresh_produce n =
      (if contains_any exclude_terms (lower n) then False
       else if contains_any include_terms (lower n) then True
       else if sublist (asc ''kg'') (lower n) then True
       else True)" for n
    by (simp add: is_fresh_produce_def Let_def term_found_contains_any py_in_sublist)
  have policy: "is_fresh_produce name = classifier_policy name"
    by (simp add: chain classifier_policy_def classifier_rules_def)
  have lata: "term_found exclude_terms (lower (asc ''Tomate frito en lata''))"
    by (simp add: exclude_terms_def lower_def lower_cp_def asc_def)
  have lisa: "\<not> term_found exclude_terms (lower (asc ''Tomate Lisa x kg''))"
    by (simp add: exclude_terms_def lower_def lower_cp_def asc_def)
  have "is_fresh_produce (asc ''Tomate frito en lata'') = False"
    using lata by (simp add: is_fresh_produce_def Let_def)
  moreover have "is_fresh_produce (asc ''Tomate Lisa x kg'') = True"
    using lisa by (simp add: is_fresh_produce_def Let_def)
  ultimately show ?thesis
    using chain [of name] policy by simp
qed

text \<open>
  C9. The classifier equals the single predicate "no exclusion term occurs in the
  lowercased name": every rule after the exclusion check, the default included,
  answers true, so the inclusion terms and the weight token never change the outcome.
\<close>

theorem is_fresh_produce_no_exclusion:
  "is_fresh_produce name = no_exclusion_term name"
  by (simp add: is_fresh_produce_def Let_def no_exclusion_term_def term_found_contains_any)

subsection \<open>Price trend\<close>

lemma avg_by_date_dates:
  "map fst (avg_by_date db product (today - days) today)
     = sort (remdups (map col_date (filter (in_window today days product) db)))"
proof -
  have "filter (\<lambda>r. col_product r = product \<and> today - days \<le> col_date r \<and> col_date r \<le> today) db
        = filter (in_window today days product) db"
    by (rule filter_cong) (auto simp: in_window_def)
  then show ?thesis
    by (simp add: avg_by_date_def Let_def comp_def)
qed

lemma avg_by_date_snd:
  assumes "(d, a) \<in> set (avg_by_date db product (today - days) today)"
  shows "a = day_average db product d \<and> d \<in> window_dates today db product days"
proof -
  let ?rows = "filter (\<lambda>r. col_product r = product \<and> today - days \<le> col_date r \<and> col_date r \<le> today) db"
  from assms have d: "d \<in> set (map col_date ?rows)"
    and a: "a = sql_avg (map col_price_guaranies (filter (\<lambda>r. col_date r = d) ?rows))"
    by (auto simp: avg_by_date_def Let_def)
  from d have win: "today - days \<le> d \<and> d \<le> today" by auto
  have "filter (\<lambda>r. col_date r = d) ?rows
        = filter (\<lambda>r. col_product r = product \<and> col_date r = d) db"
    using win by (auto intro: filter_cong)
  with a d show ?thesis
    by (simp add: day_average_def window_dates_def in_window_def)
qed

lemma sorted_hd_is_Min: "sorted xs \<Longrightarrow> xs \<noteq> [] \<Longrightarrow> hd xs = Min (set xs)"
  by (cases xs) (auto intro!: Min_eqI [symmetric])

lemma sorted_last_is_Max: "sorted xs \<Longrightarrow> xs \<noteq> [] \<Longrightarrow> last xs = Max (set xs)"
  by (induction xs) (auto intro!: Max_eqI [symmetric] simp: max_def)

lemma avg_by_date_ends:
  assumes "2 \<le> card (window_dates today db product days)"
  defines "data \<equiv> avg_by_date db product (today - days) today"
  shows "length data = card (window_dates today db product days)"
    and "data ! 0 = (Min (window_dates today db product days),
                     day_average db product (Min (window_dates today db product days)))"
    and "last data = (Max (window_dates today db product days),
                      day_average db product (Max (window_dates today db product days)))"
proof -
  let ?D = "window_dates today db product days"
  let ?ds = "sort (remdups (map col_date (filter (in_window today days product) db)))"
  have fst: "map fst data = ?ds"
    unfolding data_def by (rule avg_by_date_dates)
  have set_ds: "set ?ds = ?D"
    by (simp add: window_dates_def)
  have len: "length data = card ?D"
  proof -
    have "length data = length ?ds" using fst by (metis length_map)
    also have "\<dots> = card ?D" by (simp add: window_dates_def length_remdups_card_conv)
    finally show ?thesis .
  qed
  then show "length data = card ?D" .
  from len assms(1) have ne: "data \<noteq> []" by auto
  then have ne_ds: "?ds \<noteq> []" using fst by (metis map_is_Nil_conv)
  have hd_in: "hd data \<in> set data" and last_in: "last data \<in> set data"
    using ne by simp_all
  have "fst (hd data) = hd ?ds" using fst ne by (metis hd_map)
  also have "\<dots> = Min ?D"
    using sorted_hd_is_Min [of ?ds] ne_ds set_ds by simp
  finally have h: "fst (hd data) = Min ?D" .
  have "fst (last data) = last ?ds" using fst ne by (metis last_map)
  also have "\<dots> = Max ?D"
    using sorted_last_is_Max [of ?ds] ne_ds set_ds by simp
  finally have l: "fst (last data) = Max ?D" .
  have "snd (hd data) = day_average db product (fst (hd data))"
    using avg_by_date_snd [of "fst (hd data)" "snd (hd data)" db product today days] hd_in
    unfolding data_def by simp
  with h have "hd data = (Min ?D, day_average db product (Min ?D))"
    by (metis prod.collapse)
  then show "data ! 0 = (Min ?D, day_average db product (Min ?D))"
    using ne by (simp add: hd_conv_nth)
  have "snd (last data) = day_average db product (fst (last data))"
    using avg_by_date_snd [of "fst (last data)" "snd (last data)" db product today days] last_in
    unfolding data_def by simp
  with l show "last data = (Max ?D, day_average db product (Max ?D))"
    by (metis prod.collapse)
qed

lemma get_price_trend_window:
  assumes "\<bar>days\<bar> \<le> 999999999" "1 \<le> today - days" "today - days \<le> 3652059"
  shows "get_price_trend today db product days =
     (let data = avg_by_date db product (today - days) today
      in if length data < 2
         then Inr \<lparr>t_trend = insufficient_data, t_change_percent = 0,
                   t_first_price = None, t_last_price = None\<rparr>
         else if snd (data ! 0) = 0 then Inl ZeroDivisionError
         else Inr \<lparr>t_trend = (if 2 < percent_change (snd (data ! 0)) (snd (last data)) then up
                                else if percent_change (snd (data ! 0)) (snd (last data)) < - 2
                                then down else stable),
                     t_change_percent = py_round1 (percent_change (snd (data ! 0)) (snd (last data))),
                     t_first_price = Some (py_int (snd (data ! 0))),
                     t_last_price = Some (py_int (snd (last data)))\<rparr>)"
  using assms by (simp add: get_price_trend_def timedelta_def date_sub_def max_ordinal_def Let_def)

lemma get_price_trend_no_window:
  assumes "999999999 < \<bar>days\<bar> \<or> today - days < 1 \<or> 3652059 < today - days"
  shows "get_price_trend today db product days = Inl OverflowError"
  using assms by (auto simp: get_price_trend_def timedelta_def date_sub_def max_ordinal_def Let_def)

text \<open>
  C3, as amended. For a window whose first day \<open>today - days\<close> is a date,
  \<open>get_price_trend\<close> groups the product's facts dated in \<open>[today - days, today]\<close> by date
  and averages the price of each date. With fewer than two distinct dates it returns
  \<open>insufficient_data\<close>. Otherwise, when the average of the earliest date is not zero, it
  takes the percentage change from the average of the earliest date to that of the
  latest and answers \<open>up\<close> when the change exceeds 2, \<open>down\<close> when it is below \<open>- 2\<close>,
  else \<open>stable\<close>; the change is reported rounded to one decimal. Averages 20000 six
  days ago and 21000 today give \<open>up\<close> with a change of 5.0, and a history of one day
  gives \<open>insufficient_data\<close>.
\<close>

theorem get_price_trend_classifies:
  "(\<bar>days\<bar> \<le> 999999999 \<and> 1 \<le> today - days \<and> today - days \<le> 3652059
        \<and> card (window_dates today db product days) < 2 \<longrightarrow>
      get_price_trend today db product days
        = Inr \<lparr>t_trend = insufficient_data, t_change_percent = 0,
                 t_first_price = None, t_last_price = None\<rparr>)
   \<and> (\<bar>days\<bar> \<le> 999999999 \<and> 1 \<le> today - days \<and> today - days \<le> 3652059
        \<and> 2 \<le> card (window_dates today db product days)
        \<and> day_average db product (Min (window_dates today db product days)) \<noteq> 0 \<longrightarrow>
      get_price_trend today db product days
        = (let first_avg = day_average db product (Min (window_dates today db product days));
               last_avg = day_average db product (Max (window_dates today db product days));
               change = percent_change first_avg last_avg
           in Inr \<lparr>t_trend = (if 2 < change then up else if change < - 2 then down else stable),
                    t_change_percent = py_round1 change,
                    t_first_price = Some (py_int first_avg),
                    t_last_price = Some (py_int last_avg)\<rparr>))
   \<and> get_price_trend 739000 trend_example_db (asc ''Tomate Lisa'') 7
        = Inr \<lparr>t_trend = up, t_change_percent = 5,
                 t_first_price = Some 20000, t_last_price = Some 21000\<rparr>
   \<and> get_price_trend 739000 (tl (tl trend_example_db)) (asc ''Tomate Lisa'') 7
        = Inr \<lparr>t_trend = insufficient_data, t_change_percent = 0,
                 t_first_price = None, t_last_price = None\<rparr>"
proof (intro conjI impI)
  let ?D = "window_dates today db product days"
  let ?data = "avg_by_date db product (today - days) today"
  have len: "length ?data = card ?D"
  proof -
    have "length ?data = length (map fst ?data)" by simp
    also have "\<dots> = card ?D"
      unfolding avg_by_date_dates by (simp add: window_dates_def length_remdups_card_conv)
    finally show ?thesis .
  qed
  {
    assume a: "\<bar>days\<bar> \<le> 999999999 \<and> 1 \<le> today - days \<and> today - days \<le> 3652059
        \<and> card ?D < 2"
    then have w: "\<bar>days\<bar> \<le> 999999999" "1 \<le> today - days" "today - days \<le> 3652059"
      and one: "card ?D < 2" by simp_all
    from one len show "get_price_trend today db product days
        = Inr \<lparr>t_trend = insufficient_data, t_change_percent = 0,
                 t_first_price = None, t_last_price = None\<rparr>"
      by (simp add: get_price_trend_window [OF w] Let_def)
  }
  {
    assume a: "\<bar>days\<bar> \<le> 999999999 \<and> 1 \<le> today - days \<and> today - days \<le> 3652059
        \<and> 2 \<le> card ?D \<and> day_average db product (Min ?D) \<noteq> 0"
    then have w: "\<bar>days\<bar> \<le> 999999999" "1 \<le> today - days" "today - days \<le> 3652059"
      and two: "2 \<le> card ?D" and nz: "day_average db product (Min ?D) \<noteq> 0" by simp_all
    note ends = avg_by_date_ends [OF two]
    show "get_price_trend today db product days
        = (let first_avg = day_average db product (Min ?D);
               last_avg = day_average db product (Max ?D);
               change = percent_change first_avg last_avg
           in Inr \<lparr>t_trend = (if 2 < change then up else if change < - 2 then down else stable),
                    t_change_percent = py_round1 change,
                    t_first_price = Some (py_int first_avg),
                    t_last_price = Some (py_int last_avg)\<rparr>)"
      using two nz len by (simp add: get_price_trend_window [OF w] Let_def ends(2) ends(3))
  }
  show "get_price_trend 739000 trend_example_db (asc ''Tomate Lisa'') 7
        = Inr \<lparr>t_trend = up, t_change_percent = 5,
                 t_first_price = Some 20000, t_last_price = Some 21000\<rparr>"
    by code_simp
  show "get_price_trend 739000 (tl (tl trend_example_db)) (asc ''Tomate Lisa'') 7
        = Inr \<lparr>t_trend = insufficient_data, t_change_percent = 0,
                 t_first_price = None, t_last_price = None\<rparr>"
    by code_simp
qed

text \<open>
  C3 as stated fails for two windows. In the history with the price 0 six days ago and
  21000 today the window of 7 days has two distinct dates, and the call ends in
  \<open>ZeroDivisionError\<close> instead of a classification. With a window of 739000 days on day
  739000 the first day of the window would be day 0, which is no date: the call ends in
  \<open>OverflowError\<close>, whatever is stored.
\<close>

theorem get_price_trend_raises:
  "card (window_dates 739000 zero_price_db (asc ''Tomate Lisa'') 7) = 2
   \<and> get_price_trend 739000 zero_price_db (asc ''Tomate Lisa'') 7 = Inl ZeroDivisionError
   \<and> get_price_trend 739000 trend_example_db (asc ''Tomate Lisa'') 739000 = Inl OverflowError"
proof -
  have "card (window_dates 739000 zero_price_db (asc ''Tomate Lisa'') 7) = 2" by code_simp
  moreover have "get_price_trend 739000 zero_price_db (asc ''Tomate Lisa'') 7
      = Inl ZeroDivisionError" by code_simp
  moreover have "get_price_trend 739000 trend_example_db (asc ''Tomate Lisa'') 739000
      = Inl OverflowError" by code_simp
  ultimately show ?thesis by (intro conjI)
qed

text \<open>The statement at the example history and at its last day alone.\<close>

theorem get_price_trend_classifies_witness:
  "\<bar>7\<bar> \<le> (999999999::int) \<and> (1::int) \<le> 739000 - 7 \<and> 739000 - 7 \<le> (3652059::int)
   \<and> 2 \<le> card (window_dates 739000 trend_example_db (asc ''Tomate Lisa'') 7)
   \<and> day_average trend_example_db (asc ''Tomate Lisa'')
         (Min (window_dates 739000 trend_example_db (asc ''Tomate Lisa'') 7)) \<noteq> 0
   \<and> get_price_trend 739000 trend_example_db (asc ''Tomate Lisa'') 7
        = (let first_avg = day_average trend_example_db (asc ''Tomate Lisa'')
                 (Min (window_dates 739000 trend_example_db (asc ''Tomate Lisa'') 7));
               last_avg = day_average trend_example_db (asc ''Tomate Lisa'')
                 (Max (window_dates 739000 trend_example_db (asc ''Tomate Lisa'') 7));
               change = percent_change first_avg last_avg
           in Inr \<lparr>t_trend = (if 2 < change then up else if change < - 2 then down else stable),
                    t_change_percent = py_round1 change,
                    t_first_price = Some (py_int first_avg),
                    t_last_price = Some (py_int last_avg)\<rparr>)
   \<and> card (window_dates 739000 (tl (tl trend_example_db)) (asc ''Tomate Lisa'') 7) < 2
   \<and> get_price_trend 739000 (tl (tl trend_example_db)) (asc ''Tomate Lisa'') 7
        = Inr \<lparr>t_trend = insufficient_data, t_change_percent = 0,
                 t_first_price = None, t_last_price = None\<rparr>"
proof -
  have w: "\<bar>7\<bar> \<le> (999999999::int) \<and> (1::int) \<le> 739000 - 7 \<and> 739000 - 7 \<le> (3652059::int)"
    by simp
  have two: "2 \<le> card (window_dates 739000 trend_example_db (asc ''Tomate Lisa'') 7)"
    by code_simp
  have nz: "day_average trend_example_db (asc ''Tomate Lisa'')
         (Min (window_dates 739000 trend_example_db (asc ''Tomate Lisa'') 7)) \<noteq> 0"
    by code_simp
  have one: "card (window_dates 739000 (tl (tl trend_example_db)) (asc ''Tomate Lisa'') 7) < 2"
    by code_simp
  note thm1 = get_price_trend_classifies [of 7 739000 trend_example_db "asc ''Tomate Lisa''"]
  note thm2 = get_price_trend_classifies [of 7 739000 "tl (tl trend_example_db)" "asc ''Tomate Lisa''"]
  from thm1 w two nz thm2 one show ?thesis by blast
qed

subsection \<open>Price Store: saving a fact\<close>

text \<open>
  A save never fails on a key collision, and afterwards every row with the key of the
  saved fact carries the price and the unit of that save: the row is the last one, the
  earlier one is gone.
\<close>

lemma save_price_replaces:
  assumes "- (2 ^ 63) \<le> price" "price < 2 ^ 63"
  shows "\<exists>db'. save_price today db supermarket product price raw unit (Some date) = Inr db'
           \<and> last db' = \<lparr>col_date = date, col_supermarket = supermarket, col_product = product,
                 col_product_name_raw = raw, col_price_guaranies = price, col_unit = unit\<rparr>
           \<and> (\<forall>r \<in> set db'. col_date r = date \<and> col_supermarket r = supermarket
                  \<and> col_product r = product \<and> col_product_name_raw r = raw \<and> raw \<noteq> None
                  \<longrightarrow> col_price_guaranies r = price \<and> col_unit r = unit)"
  using assms
  by (auto simp: save_price_def Let_def unique_conflict_def split: option.splits)

text \<open>Saving the same fact (with a raw name) a second time leaves the table as it is.\<close>

lemma save_price_twice:
  assumes "save_price today db supermarket product price (Some raw) unit date = Inr db'"
  shows "save_price today db' supermarket product price (Some raw) unit date = Inr db'"
  using assms
  by (auto simp: save_price_def Let_def unique_conflict_def split: if_splits)

text \<open>
  C1. The claim holds that a save whose key (date, source, product, raw name) is that of
  a stored row leaves the stored row unchanged. The program replaces the row: with the
  fact at 17950 stored, saving the same key at 16500 leaves one row, at 16500.
\<close>

theorem save_price_collision_replaces:
  "save_price 739000 [stored_fact 17950] (asc ''Stock'') (asc ''Tomate Lisa'') 16500
     (Some (asc ''Tomate Lisa x kg'')) (asc ''kg'') None
   = Inr [stored_fact 16500]"
  by (simp add: save_price_def stored_fact_def unique_conflict_def Let_def asc_def)

subsection \<open>Report Data Builder: deduplication and medians\<close>








lemma alerts_loop_alert_for:
  "alerts_loop today db thr n ps acc = acc @ concat (map (alert_for today db thr n) ps)"
  by (induction ps arbitrary: acc) (auto simp: alert_for_def Let_def split: option.splits)

lemma report_loop_entries:
  assumes "report_loop today db thr cfgs (rp, al, tr) = Inr (rp', al', tr')"
  shows "\<exists>new. rp' = rp @ new
           \<and> list_all2 (reported_entry today db)
                 (filter (\<lambda>pc. todays_facts today db pc \<noteq> []) cfgs) new
           \<and> al' = al @ concat (map (product_alerts today db thr)
                                   (filter (\<lambda>pc. todays_facts today db pc \<noteq> []) cfgs))"
  using assms
proof (induction cfgs arbitrary: rp al tr)
  case Nil
  then show ?case by simp
next
  case (Cons pc cfgs)
  let ?name = "product_name_of pc"
  let ?facts = "todays_facts today db pc"
  show ?case
  proof (cases "?facts = []")
    case True
    with Cons.prems have "report_loop today db thr cfgs (rp, al, tr) = Inr (rp', al', tr')"
      by (simp add: Let_def todays_facts_def product_name_of_def)
    from Cons.IH [OF this] True show ?thesis by simp
  next
    case False
    let ?ds = "deduplicate ?facts"
    from False Cons.prems obtain m trend where
      m: "statistics_median (map d_price ?ds) = Inr m"
      and t: "get_price_trend today db ?name 7 = Inr trend"
      and rest: "report_loop today db thr cfgs
          (rp @ [\<lparr>r_name = ?name, r_median = py_int m, r_prices = sort_key d_price ?ds\<rparr>],
           alerts_loop today db thr ?name ?ds al,
           AList.update ?name trend tr) = Inr (rp', al', tr')"
      by (auto simp: Let_def todays_facts_def product_name_of_def split: sum.splits)
    from Cons.IH [OF rest] obtain new where
      new: "rp' = (rp @ [\<lparr>r_name = ?name, r_median = py_int m, r_prices = sort_key d_price ?ds\<rparr>]) @ new"
      and all: "list_all2 (reported_entry today db)
                 (filter (\<lambda>pc. todays_facts today db pc \<noteq> []) cfgs) new"
      and al': "al' = alerts_loop today db thr ?name ?ds al
                  @ concat (map (product_alerts today db thr)
                                   (filter (\<lambda>pc. todays_facts today db pc \<noteq> []) cfgs))"
      by blast
    have entry: "reported_entry today db pc
        \<lparr>r_name = ?name, r_median = py_int m, r_prices = sort_key d_price ?ds\<rparr>"
      using m by (simp add: reported_entry_def)
    have pa: "concat (map (alert_for today db thr ?name) ?ds) = product_alerts today db thr pc"
      by (simp add: product_alerts_def)
    show ?thesis
      using False new all al' entry
      by (intro exI [of _ "\<lparr>r_name = ?name, r_median = py_int m, r_prices = sort_key d_price ?ds\<rparr> # new"])
         (simp add: alerts_loop_alert_for pa)
  qed
qed

lemma generate_report_data_parts:
  assumes "generate_report_data today db thr cfgs = Inr rep"
  shows "list_all2 (reported_entry today db)
           (filter (\<lambda>pc. todays_facts today db pc \<noteq> []) cfgs) (rep_products rep)
         \<and> rep_alerts rep = concat (map (product_alerts today db thr)
                                   (filter (\<lambda>pc. todays_facts today db pc \<noteq> []) cfgs))"
proof -
  from assms obtain rp al tr where
    loop: "report_loop today db thr cfgs ([], [], []) = Inr (rp, al, tr)"
    and rep: "rep = \<lparr>rep_date = today, rep_products = rp, rep_alerts = al, rep_trends = tr\<rparr>"
    by (auto simp: generate_report_data_def split: sum.splits)
  from report_loop_entries [OF loop] rep show ?thesis by auto
qed





lemma alert_example_eval_15:
  "generate_report_data 739000 alert_example_db 15 tomate_config
     = Inr (alert_example_report [biggie_alert])"
  by code_simp

lemma alert_example_eval_20:
  "generate_report_data 739000 alert_example_db 20 tomate_config = Inr (alert_example_report [])"
  by code_simp

subsection \<open>Report Data Builder: alerts\<close>

text \<open>
  The previous price is the price of a row of the latest date before today for the
  source and product, and there is none exactly when there is no such row.
\<close>

lemma get_previous_price_latest:
  "(get_previous_price today db supermarket product = None
      \<longleftrightarrow> \<not> (\<exists>r \<in> set db. col_supermarket r = supermarket \<and> col_product r = product
                        \<and> col_date r < today))
   \<and> (\<forall>previous. get_previous_price today db supermarket product = Some previous \<longrightarrow>
          (\<exists>r \<in> set db. col_supermarket r = supermarket \<and> col_product r = product
              \<and> col_date r < today \<and> col_price_guaranies r = previous
              \<and> (\<forall>q \<in> set db. col_supermarket q = supermarket \<and> col_product q = product
                     \<and> col_date q < today \<longrightarrow> col_date q \<le> col_date r)))"
proof -
  let ?P = "\<lambda>r. col_supermarket r = supermarket \<and> col_product r = product \<and> col_date r < today"
  let ?rs = "filter ?P db"
  show ?thesis
  proof (cases ?rs)
    case Nil
    then have "\<not> (\<exists>r \<in> set db. ?P r)" by (simp add: filter_empty_conv)
    with Nil show ?thesis by (simp add: get_previous_price_def)
  next
    case (Cons r rs)
    define m where "m = Max (set (map col_date (r # rs)))"
    have "m \<in> set (map col_date (r # rs))" unfolding m_def by (rule Max_in) simp_all
    then obtain x where x: "x \<in> set (r # rs)" "col_date x = m" by auto
    then have "filter (\<lambda>q. col_date q = m) (r # rs) \<noteq> []"
      by (auto simp: filter_empty_conv)
    then obtain q qs where q: "filter (\<lambda>q. col_date q = m) (r # rs) = q # qs"
      by (cases "filter (\<lambda>q. col_date q = m) (r # rs)") auto
    then have "q \<in> set (filter (\<lambda>q. col_date q = m) (r # rs))"
      by (simp only: list.set_intros)
    then have "q \<in> set (r # rs) \<and> col_date q = m"
      by (simp only: set_filter mem_Collect_eq)
    then have qin: "q \<in> set ?rs" and qm: "col_date q = m" using Cons by simp_all
    have res: "get_previous_price today db supermarket product = Some (col_price_guaranies q)"
      using Cons q unfolding m_def by (simp add: get_previous_price_def)
    have le: "col_date y \<le> col_date q" if "y \<in> set db" "?P y" for y
    proof -
      from that have "y \<in> set ?rs" by simp
      then have "y \<in> set (r # rs)" using Cons by simp
      then have "col_date y \<le> m" unfolding m_def by (intro Max_ge) auto
      with qm show ?thesis by simp
    qed
    from qin have "q \<in> set db \<and> ?P q" by auto
    with res le show ?thesis by auto
  qed
qed

lemma alert_for_iff:
  "a \<in> set (alert_for today db alert_threshold product_name e) \<longleftrightarrow>
     (\<exists>previous.
        get_previous_price today db (d_supermarket e) product_name = Some previous
        \<and> previous \<noteq> 0
        \<and> alert_threshold \<le> \<bar>alert_change (d_price e) previous\<bar>
        \<and> a = \<lparr>a_product = product_name, a_supermarket = d_supermarket e,
                 a_change_percent = alert_change (d_price e) previous,
                 a_previous_price = previous, a_current_price = d_price e\<rparr>)"
  by (cases "get_previous_price today db (d_supermarket e) product_name")
     (auto simp: alert_for_def)

text \<open>
  C5, as amended. An alert is emitted for a source and product exactly when a previous
  price (a stored price of the latest date before today) exists, is not zero, and the
  absolute value of the percentage change from it to today's deduplicated price, as
  binary64 arithmetic computes \<open>((price - previous) / previous) * 100\<close>, meets or exceeds
  the threshold. The emitted \<open>change_percent\<close> is that value, unrounded: for the previous
  price 20250 and the current price 16500 it is \<open>- 18.518518518518519\<close>, which is
  \<open>- 18.5\<close> once rounded to one decimal. The alert is generated with threshold 15 and
  not with threshold 20.
\<close>

theorem alert_emitted_iff:
  "generate_report_data today db alert_threshold products_config = Inr rep \<Longrightarrow>
     (a \<in> set (rep_alerts rep) \<longleftrightarrow>
        (\<exists>pc \<in> set products_config. \<exists>e \<in> set (deduplicate (todays_facts today db pc)).
           \<exists>previous.
             get_previous_price today db (d_supermarket e) (product_name_of pc) = Some previous
             \<and> previous \<noteq> 0
             \<and> alert_threshold \<le> \<bar>alert_change (d_price e) previous\<bar>
             \<and> a = \<lparr>a_product = product_name_of pc, a_supermarket = d_supermarket e,
                      a_change_percent = alert_change (d_price e) previous,
                      a_previous_price = previous, a_current_price = d_price e\<rparr>))
     \<and> (\<forall>supermarket product previous.
           get_previous_price today db supermarket product = Some previous \<longrightarrow>
             (\<exists>r \<in> set db. col_supermarket r = supermarket \<and> col_product r = product
                \<and> col_date r < today \<and> col_price_guaranies r = previous
                \<and> (\<forall>q \<in> set db. col_supermarket q = supermarket \<and> col_product q = product
                       \<and> col_date q < today \<longrightarrow> col_date q \<le> col_date r)))
     \<and> alert_change 16500 20250 = - (1303124892178963 / 70368744177664)
     \<and> py_round1 (alert_change 16500 20250) = - (37 / 2)
     \<and> generate_report_data 739000 alert_example_db 15 tomate_config
         = Inr (alert_example_report [biggie_alert])
     \<and> generate_report_data 739000 alert_example_db 20 tomate_config
         = Inr (alert_example_report [])"
proof (intro conjI)
  assume gen: "generate_report_data today db alert_threshold products_config = Inr rep"
  let ?has = "\<lambda>pc. todays_facts today db pc \<noteq> []"
  from generate_report_data_parts [OF gen]
  have al: "rep_alerts rep = concat (map (product_alerts today db alert_threshold)
                                   (filter ?has products_config))" by simp
  have empty: "product_alerts today db alert_threshold pc = []" if "\<not> ?has pc" for pc
    using that by (simp add: product_alerts_def deduplicate_def)
  have "a \<in> set (rep_alerts rep) \<longleftrightarrow>
        (\<exists>pc \<in> set products_config. a \<in> set (product_alerts today db alert_threshold pc))"
    using empty by (auto simp: al)
  also have "\<dots> \<longleftrightarrow>
        (\<exists>pc \<in> set products_config. \<exists>e \<in> set (deduplicate (todays_facts today db pc)).
           a \<in> set (alert_for today db alert_threshold (product_name_of pc) e))"
    by (auto simp: product_alerts_def)
  also have "\<dots> \<longleftrightarrow>
        (\<exists>pc \<in> set products_config. \<exists>e \<in> set (deduplicate (todays_facts today db pc)).
           \<exists>previous.
             get_previous_price today db (d_supermarket e) (product_name_of pc) = Some previous
             \<and> previous \<noteq> 0
             \<and> alert_threshold \<le> \<bar>alert_change (d_price e) previous\<bar>
             \<and> a = \<lparr>a_product = product_name_of pc, a_supermarket = d_supermarket e,
                      a_change_percent = alert_change (d_price e) previous,
                      a_previous_price = previous, a_current_price = d_price e\<rparr>)"
    by (simp only: alert_for_iff)
  finally show "a \<in> set (rep_alerts rep) \<longleftrightarrow>
        (\<exists>pc \<in> set products_config. \<exists>e \<in> set (deduplicate (todays_facts today db pc)).
           \<exists>previous.
             get_previous_price today db (d_supermarket e) (product_name_of pc) = Some previous
             \<and> previous \<noteq> 0
             \<and> alert_threshold \<le> \<bar>alert_change (d_price e) previous\<bar>
             \<and> a = \<lparr>a_product = product_name_of pc, a_supermarket = d_supermarket e,
                      a_change_percent = alert_change (d_price e) previous,
                      a_previous_price = previous, a_current_price = d_price e\<rparr>)" .
next
  show "\<forall>supermarket product previous.
           get_previous_price today db supermarket product = Some previous \<longrightarrow>
             (\<exists>r \<in> set db. col_supermarket r = supermarket \<and> col_product r = product
                \<and> col_date r < today \<and> col_price_guaranies r = previous
                \<and> (\<forall>q \<in> set db. col_supermarket q = supermarket \<and> col_product q = product
                       \<and> col_date q < today \<longrightarrow> col_date q \<le> col_date r))"
    using get_previous_price_latest [of today db] by blast
next
  show "alert_change 16500 20250 = - (1303124892178963 / 70368744177664)" by code_simp
next
  show "py_round1 (alert_change 16500 20250) = - (37 / 2)" by code_simp
next
  show "generate_report_data 739000 alert_example_db 15 tomate_config
         = Inr (alert_example_report [biggie_alert])" by (rule alert_example_eval_15)
next
  show "generate_report_data 739000 alert_example_db 20 tomate_config
         = Inr (alert_example_report [])" by (rule alert_example_eval_20)
qed

text \<open>
  C5 as stated fails: for the previous price 20250 and the current price 16500 the
  emitted \<open>change_percent\<close> is not \<open>- 18.5\<close>.
\<close>

theorem alert_change_percent_is_not_rounded:
  "generate_report_data 739000 alert_example_db 15 tomate_config
     = Inr (alert_example_report [biggie_alert])
   \<and> a_previous_price biggie_alert = 20250 \<and> a_current_price biggie_alert = 16500
   \<and> a_change_percent biggie_alert \<noteq> - (37 / 2)"
proof -
  have "a_change_percent biggie_alert \<noteq> - (37 / 2)"
    by (simp add: biggie_alert_def)
  with alert_example_eval_15 show ?thesis by (simp add: biggie_alert_def)
qed

text \<open>The statement at the example, where the alert is emitted.\<close>

theorem alert_emitted_iff_witness:
  "generate_report_data 739000 alert_example_db 15 tomate_config
     = Inr (alert_example_report [biggie_alert])
   \<and> (biggie_alert \<in> set (rep_alerts (alert_example_report [biggie_alert])) \<longleftrightarrow>
        (\<exists>pc \<in> set tomate_config.
           \<exists>e \<in> set (deduplicate (todays_facts 739000 alert_example_db pc)).
           \<exists>previous.
             get_previous_price 739000 alert_example_db (d_supermarket e) (product_name_of pc)
               = Some previous
             \<and> previous \<noteq> 0
             \<and> 15 \<le> \<bar>alert_change (d_price e) previous\<bar>
             \<and> biggie_alert = \<lparr>a_product = product_name_of pc, a_supermarket = d_supermarket e,
                      a_change_percent = alert_change (d_price e) previous,
                      a_previous_price = previous, a_current_price = d_price e\<rparr>))
   \<and> get_previous_price 739000 alert_example_db (asc ''Biggie'') (asc ''Tomate Lisa'') = Some 20250
   \<and> (\<exists>r \<in> set alert_example_db. col_supermarket r = asc ''Biggie''
          \<and> col_product r = asc ''Tomate Lisa'' \<and> col_date r < 739000
          \<and> col_price_guaranies r = 20250)"
proof -
  have prev: "get_previous_price 739000 alert_example_db (asc ''Biggie'') (asc ''Tomate Lisa'')
                = Some 20250"
    by code_simp
  note inst = alert_emitted_iff [OF alert_example_eval_15, of biggie_alert]
  from inst have iff: "(biggie_alert \<in> set (rep_alerts (alert_example_report [biggie_alert])) \<longleftrightarrow>
        (\<exists>pc \<in> set tomate_config.
           \<exists>e \<in> set (deduplicate (todays_facts 739000 alert_example_db pc)).
           \<exists>previous.
             get_previous_price 739000 alert_example_db (d_supermarket e) (product_name_of pc)
               = Some previous
             \<and> previous \<noteq> 0
             \<and> 15 \<le> \<bar>alert_change (d_price e) previous\<bar>
             \<and> biggie_alert = \<lparr>a_product = product_name_of pc, a_supermarket = d_supermarket e,
                      a_change_percent = alert_change (d_price e) previous,
                      a_previous_price = previous, a_current_price = d_price e\<rparr>))"
    by (rule conjunct1)
  from inst prev have "\<exists>r \<in> set alert_example_db. col_supermarket r = asc ''Biggie''
          \<and> col_product r = asc ''Tomate Lisa'' \<and> col_date r < 739000
          \<and> col_price_guaranies r = 20250"
    by blast
  with iff prev alert_example_eval_15 show ?thesis by blast
qed

subsection \<open>Source Adapter\<close>

text \<open>
  C7. For every query, \<open>search\<close> never raises: its result is always a list of candidate
  listings. When the adapter is disabled the list is empty and no request is made. When
  building the URL fails, when the request fails (a timeout, an error status: the
  transport raises) or when parsing fails, the list is empty; otherwise it is the list
  the extractor returns.
\<close>

theorem search_never_raises:
  "(\<exists>products. fst (search self w query requested) = Inr products)
   \<and> (\<not> s_enabled self \<longrightarrow> search self w query requested = (Inr [], requested))
   \<and> (s_enabled self \<and> (\<exists>e. format_url w (s_search_url self) query = Inl e) \<longrightarrow>
        search self w query requested = (Inr [], requested))
   \<and> (s_enabled self \<and> format_url w (s_search_url self) query = Inr url
        \<and> (\<exists>e. http_get w url = Inl e) \<longrightarrow>
        search self w query requested = (Inr [], requested @ [url]))
   \<and> (s_enabled self \<and> format_url w (s_search_url self) query = Inr url
        \<and> http_get w url = Inr text \<and> (\<exists>e. parse_products w text = Inl e) \<longrightarrow>
        search self w query requested = (Inr [], requested @ [url]))
   \<and> (s_enabled self \<and> format_url w (s_search_url self) query = Inr url
        \<and> http_get w url = Inr text \<and> parse_products w text = Inr products \<longrightarrow>
        search self w query requested = (Inr products, requested @ [url]))"
proof (intro conjI impI)
  show "\<exists>products. fst (search self w query requested) = Inr products"
    by (auto simp: search_def search_try_def split: sum.splits raised.splits)
qed (auto simp: search_def search_try_def split: sum.splits raised.splits)

text \<open>The statement at the disabled scraper and in each of the three worlds.\<close>

theorem search_never_raises_witness:
  "\<not> s_enabled (example_scraper False)
   \<and> search (example_scraper False) (example_web 2) (asc ''tomate'') [] = (Inr [], [])
   \<and> s_enabled (example_scraper True)
   \<and> (\<exists>e. http_get (example_web 0) (asc ''https://biggie.example/search?q=tomate'') = Inl e)
   \<and> search (example_scraper True) (example_web 0) (asc ''tomate'') []
       = (Inr [], [asc ''https://biggie.example/search?q=tomate''])
   \<and> (\<exists>e. parse_products (example_web 1) (asc ''<html>'') = Inl e)
   \<and> search (example_scraper True) (example_web 1) (asc ''tomate'') []
       = (Inr [], [asc ''https://biggie.example/search?q=tomate''])
   \<and> search (example_scraper True) (example_web 2) (asc ''tomate'') []
       = (Inr [example_listing], [asc ''https://biggie.example/search?q=tomate''])"
proof -
  let ?url = "asc ''https://biggie.example/search?q=tomate''"
  have off: "\<not> s_enabled (example_scraper False)" and on: "s_enabled (example_scraper True)"
    by (simp_all add: example_scraper_def)
  have fmt: "format_url (example_web n) (s_search_url (example_scraper True)) (asc ''tomate'') = Inr ?url" for n
    by (simp add: example_web_def asc_def)
  have get0: "\<exists>e. http_get (example_web 0) ?url = Inl e" by (simp add: example_web_def)
  have get1: "http_get (example_web 1) ?url = Inr (asc ''<html>'')" by (simp add: example_web_def)
  have get2: "http_get (example_web 2) ?url = Inr (asc ''<html>'')" by (simp add: example_web_def)
  have parse1: "\<exists>e. parse_products (example_web 1) (asc ''<html>'') = Inl e"
    by (simp add: example_web_def)
  have parse2: "parse_products (example_web 2) (asc ''<html>'') = Inr [example_listing]"
    by (simp add: example_web_def)
  note a = search_never_raises [of "example_scraper False" "example_web 2" "asc ''tomate''" "[]"]
  note b = search_never_raises [of "example_scraper True" "example_web 0" "asc ''tomate''" "[]" ?url]
  note c = search_never_raises [of "example_scraper True" "example_web 1" "asc ''tomate''" "[]" ?url "asc ''<html>''"]
  note d = search_never_raises [of "example_scraper True" "example_web 2" "asc ''tomate''" "[]" ?url "asc ''<html>''" "[example_listing]"]
  from a off have r1: "search (example_scraper False) (example_web 2) (asc ''tomate'') [] = (Inr [], [])"
    by blast
  from b on fmt get0 have r2: "search (example_scraper True) (example_web 0) (asc ''tomate'') []
       = (Inr [], [] @ [?url])" by blast
  from c on fmt get1 parse1 have r3: "search (example_scraper True) (example_web 1) (asc ''tomate'') []
       = (Inr [], [] @ [?url])" by blast
  from d on fmt get2 parse2 have r4: "search (example_scraper True) (example_web 2) (asc ''tomate'') []
       = (Inr [example_listing], [] @ [?url])" by blast
  from off on get0 parse1 r1 r2 r3 r4 show ?thesis by simp
qed

subsection \<open>Generic fallback extractor\<close>

text \<open>
  The name of an emitted listing is the text of one of the name patterns or the title
  attribute, and it is not empty; when some pattern's text is longer than 3, the loop
  ends with such a text.
\<close>

lemma name_loop_result:
  "name_loop el pats name = Some n \<Longrightarrow>
     name = Some n \<or> (\<exists>pat \<in> set pats. find_text el pat = Some n)"
  by (induction pats arbitrary: name) (auto split: option.splits if_splits)

lemma name_loop_long:
  "\<exists>pat \<in> set pats. \<exists>t. find_text el pat = Some t \<and> 3 < length t \<Longrightarrow>
     \<exists>n. name_loop el pats name = Some n \<and> 3 < length n"
  by (induction pats arbitrary: name) (auto split: option.splits)

lemma extract_product_data_name:
  "extract_product_data self el = Inr (Some product) \<Longrightarrow>
     l_name product \<noteq> []
     \<and> ((\<exists>pat \<in> set name_patterns. find_text el pat = Some (l_name product))
         \<or> link_title el = Some (l_name product))"
  by (auto simp: extract_product_data_def Let_def
           split: option.splits if_splits sum.splits dest: name_loop_result)

text \<open>
  C8. The claim holds that every listing the generic extractor emits has a name of at
  least 3 characters. The program emits the container whose only name element reads
  \<open>ab\<close>: the loop keeps the last text it found when none is longer than 3.
\<close>

theorem generic_extractor_emits_short_name:
  "parse_elements (example_scraper True) [short_name_element]
     = [\<lparr>l_name = asc ''ab'', l_price = 5000, l_unit = asc ''kg'', l_url = [],
         l_supermarket = asc ''Biggie''\<rparr>]
   \<and> length (asc ''ab'') = 2"
  by code_simp

subsection \<open>Product Matcher and Collection Pipeline\<close>

lemma matches_product_no_terms:
  "cfg_search_terms product = None \<or> cfg_search_terms product = Some []
     \<Longrightarrow> \<not> matches_product raw_name product"
  by (auto simp: matches_product_def)

lemma results_loop_eq:
  "results_loop name product product_name results all_prices
     = all_prices
       @ map (\<lambda>r. \<lparr>sp_supermarket = name, sp_product = product_name,
                    sp_product_name_raw = l_name r, sp_price = l_price r,
                    sp_unit = (case cfg_unit product of None \<Rightarrow> asc ''kg'' | Some u \<Rightarrow> u)\<rparr>)
           (filter (\<lambda>r. matches_product (l_name r) product) results)"
  by (induction results arbitrary: all_prices) simp_all

lemma results_loop_new:
  "set (results_loop name product (product_name_of product) results all_prices)
     \<subseteq> set all_prices \<union> {f. sp_product f = product_name_of product
                               \<and> matches_product (sp_product_name_raw f) product}"
  by (auto simp: results_loop_eq)

lemma search_terms_loop_state:
  "snd (search_terms_loop search_of sm name product (product_name_of product) terms st)
     = snd st @ map (Pair name) terms
   \<and> set (fst (search_terms_loop search_of sm name product (product_name_of product) terms st))
       \<subseteq> set (fst st) \<union> {f. sp_product f = product_name_of product
                               \<and> matches_product (sp_product_name_raw f) product}"
proof (induction terms arbitrary: st)
  case Nil
  then show ?case by simp
next
  case (Cons t terms)
  obtain all_prices searches where st: "st = (all_prices, searches)" by (cases st)
  let ?st' = "(results_loop name product (product_name_of product)
                 (search_of sm t (length searches)) all_prices, searches @ [(name, t)])"
  have step: "search_terms_loop search_of sm name product (product_name_of product) (t # terms) st
      = search_terms_loop search_of sm name product (product_name_of product) terms ?st'"
    by (simp add: st Let_def)
  from Cons.IH [of ?st'] results_loop_new [of name product "search_of sm t (length searches)" all_prices]
  show ?case unfolding step st by auto
qed

lemma products_loop_state:
  "snd (products_loop search_of sm name products st)
     = snd st @ concat (map (\<lambda>p. map (Pair name) (terms_searched p)) products)
   \<and> (\<forall>f \<in> set (fst (products_loop search_of sm name products st)).
         f \<in> set (fst st) \<or> from_product products f)"
proof (induction products arbitrary: st)
  case Nil
  then show ?case by simp
next
  case (Cons p products)
  let ?st' = "search_terms_loop search_of sm name p (product_name_of p) (terms_searched p) st"
  have step: "products_loop search_of sm name (p # products) st
      = products_loop search_of sm name products ?st'"
    by (simp add: Let_def product_name_of_def terms_searched_def split: option.splits)
  note inner = search_terms_loop_state [of search_of sm name p "terms_searched p" st]
  note IH = Cons.IH [of ?st']
  have snd: "snd (products_loop search_of sm name (p # products) st)
     = snd st @ concat (map (\<lambda>p. map (Pair name) (terms_searched p)) (p # products))"
    unfolding step using IH inner by simp
  have fst: "\<forall>f \<in> set (fst (products_loop search_of sm name (p # products) st)).
         f \<in> set (fst st) \<or> from_product (p # products) f"
  proof
    fix f assume "f \<in> set (fst (products_loop search_of sm name (p # products) st))"
    then have "f \<in> set (fst ?st') \<or> from_product products f"
      unfolding step using IH by blast
    then show "f \<in> set (fst st) \<or> from_product (p # products) f"
      using inner by (auto simp: from_product_def)
  qed
  from snd fst show ?case by blast
qed

lemma supermarkets_loop_state:
  "snd (supermarkets_loop search_of products supermarkets st)
     = snd st @ searches_of supermarkets products
   \<and> (\<forall>f \<in> set (fst (supermarkets_loop search_of products supermarkets st)).
         f \<in> set (fst st) \<or> from_product products f)"
proof (induction supermarkets arbitrary: st)
  case Nil
  then show ?case by (simp add: searches_of_def)
next
  case (Cons sm supermarkets)
  show ?case
  proof (cases "sm_enabled sm = Some False")
    case True
    with Cons.IH [of st] show ?thesis by (simp add: searches_of_def)
  next
    case False
    let ?st' = "products_loop search_of sm (supermarket_name_of sm) products st"
    have step: "supermarkets_loop search_of products (sm # supermarkets) st
        = supermarkets_loop search_of products supermarkets ?st'"
      using False by (simp add: Let_def supermarket_name_of_def)
    note inner = products_loop_state [of search_of sm "supermarket_name_of sm" products st]
    note IH = Cons.IH [of ?st']
    have "searches_of (sm # supermarkets) products
        = concat (map (\<lambda>p. map (Pair (supermarket_name_of sm)) (terms_searched p)) products)
          @ searches_of supermarkets products"
      using False by (simp add: searches_of_def)
    with IH inner have snd: "snd (supermarkets_loop search_of products (sm # supermarkets) st)
        = snd st @ searches_of (sm # supermarkets) products"
      unfolding step by simp
    have fst: "\<forall>f \<in> set (fst (supermarkets_loop search_of products (sm # supermarkets) st)).
         f \<in> set (fst st) \<or> from_product products f"
      unfolding step using IH inner by blast
    from snd fst show ?thesis by blast
  qed
qed

text \<open>
  C10, as amended. For a product with no \<open>search_terms\<close> entry, or with an empty list,
  the matcher returns false for every listing name. With no entry, the pipeline searches
  every enabled source for the product with its lowercased name as the one term; with an
  empty list it makes no search for it. Every price a run collects comes from a
  configured product whose matcher accepted the listing, so no price is ever recorded
  under a name whose products all lack search terms.
\<close>

theorem termless_product_searched_never_recorded:
  "(cfg_search_terms product = None \<or> cfg_search_terms product = Some [] \<longrightarrow>
      \<not> matches_product raw_name product)
   \<and> snd (scrape_all_prices search_of supermarkets products) = searches_of supermarkets products
   \<and> (cfg_search_terms product = None \<longrightarrow>
        terms_searched product = [lower (product_name_of product)])
   \<and> (cfg_search_terms product = Some [] \<longrightarrow> terms_searched product = [])
   \<and> (\<forall>f \<in> set (fst (scrape_all_prices search_of supermarkets products)).
         from_product products f)
   \<and> ((\<forall>p \<in> set products. product_name_of p = product_name_of product \<longrightarrow>
           cfg_search_terms p = None \<or> cfg_search_terms p = Some []) \<longrightarrow>
        (\<forall>f \<in> set (fst (scrape_all_prices search_of supermarkets products)).
           sp_product f \<noteq> product_name_of product))"
proof -
  note loop = supermarkets_loop_state [of search_of products supermarkets "([], [])"]
  have facts: "\<forall>f \<in> set (fst (scrape_all_prices search_of supermarkets products)).
         from_product products f"
    using loop by (simp add: scrape_all_prices_def)
  have none: "(\<forall>p \<in> set products. product_name_of p = product_name_of product \<longrightarrow>
           cfg_search_terms p = None \<or> cfg_search_terms p = Some []) \<longrightarrow>
        (\<forall>f \<in> set (fst (scrape_all_prices search_of supermarkets products)).
           sp_product f \<noteq> product_name_of product)"
  proof (intro impI ballI notI)
    fix f
    assume all: "\<forall>p \<in> set products. product_name_of p = product_name_of product \<longrightarrow>
           cfg_search_terms p = None \<or> cfg_search_terms p = Some []"
      and f: "f \<in> set (fst (scrape_all_prices search_of supermarkets products))"
      and eq: "sp_product f = product_name_of product"
    from facts f obtain p where p: "p \<in> set products" "sp_product f = product_name_of p"
      "matches_product (sp_product_name_raw f) p"
      by (auto simp: from_product_def)
    with all eq have "cfg_search_terms p = None \<or> cfg_search_terms p = Some []" by simp
    from matches_product_no_terms [OF this] p(3) show False by simp
  qed
  show ?thesis
    using loop facts none matches_product_no_terms [of product raw_name]
    by (simp add: scrape_all_prices_def terms_searched_def)
qed

text \<open>
  C10 as stated fails for the empty list: with one enabled source and one product whose
  \<open>search_terms\<close> is the empty list, the run makes no search at all.
\<close>

theorem empty_search_terms_no_search:
  "\<forall>search_of. scrape_all_prices search_of [stock_config] [termless_product (Some [])] = ([], [])"
  by (simp add: scrape_all_prices_def stock_config_def termless_product_def Let_def)

text \<open>
  The statement at a product with no entry: one search, for \<open>tomate lisa\<close>, and no
  price recorded although the source returns a listing named \<open>Tomate Lisa\<close>.
\<close>

theorem termless_product_searched_never_recorded_witness:
  "cfg_search_terms (termless_product None) = None
   \<and> \<not> matches_product (asc ''Tomate Lisa x kg'') (termless_product None)
   \<and> terms_searched (termless_product None) = [asc ''tomate lisa'']
   \<and> cfg_search_terms (termless_product (Some [])) = Some []
   \<and> terms_searched (termless_product (Some [])) = []
   \<and> scrape_all_prices (\<lambda>sm t n. [example_listing]) [stock_config] [termless_product None]
       = ([], [(asc ''Stock'', asc ''tomate lisa'')])"
proof -
  let ?run = "scrape_all_prices (\<lambda>sm t n. [example_listing]) [stock_config] [termless_product None]"
  have n: "cfg_search_terms (termless_product None) = None"
    and e: "cfg_search_terms (termless_product (Some [])) = Some []"
    by (simp_all add: termless_product_def)
  have low: "lower (product_name_of (termless_product None)) = asc ''tomate lisa''"
    by (simp add: termless_product_def product_name_of_def lower_def lower_cp_def asc_def)
  note a = termless_product_searched_never_recorded
             [of "termless_product None" "asc ''Tomate Lisa x kg''" "\<lambda>sm t n. [example_listing]"
                 "[stock_config]" "[termless_product None]"]
  note b = termless_product_searched_never_recorded
             [of "termless_product (Some [])" "asc ''Tomate Lisa x kg''" "\<lambda>sm t n. [example_listing]"
                 "[stock_config]" "[termless_product None]"]
  from a n have m: "\<not> matches_product (asc ''Tomate Lisa x kg'') (termless_product None)" by blast
  from a n low have t: "terms_searched (termless_product None) = [asc ''tomate lisa'']" by simp
  from b e have t': "terms_searched (termless_product (Some [])) = []" by blast
  from a t have s: "snd ?run = [(asc ''Stock'', asc ''tomate lisa'')]"
    by (simp add: searches_of_def stock_config_def supermarket_name_of_def)
  from a n have "\<forall>f \<in> set (fst ?run). sp_product f \<noteq> product_name_of (termless_product None)"
    by simp
  moreover from a have "\<forall>f \<in> set (fst ?run). from_product [termless_product None] f" by blast
  ultimately have "set (fst ?run) = {}" by (auto simp: from_product_def)
  then have "fst ?run = []" by simp
  with s have "?run = ([], [(asc ''Stock'', asc ''tomate lisa'')])" by (metis prod.collapse)
  with n m t e t' show ?thesis by simp
qed

end
